theory Spec2Isabelle
  imports Main
begin

section \<open>The WADO-RS retrieval pipeline of dicomweb-proxy (src/dimse/wadoRs.ts)\<close>

text \<open>
  The file verified here is \<^verbatim>\<open>src/dimse/wadoRs.ts\<close>: the functions \<^verbatim>\<open>convertToJpeg\<close>,
  \<^verbatim>\<open>addFileToBuffer\<close> and \<^verbatim>\<open>doWadoRs\<close>. They are asynchronous TypeScript over a file
  system, an external JPEG tool, a metadata query and a remote fetch. The embedding makes
  all of that explicit:
  \<^item> a \<^verbatim>\<open>Buffer\<close> and a JavaScript string are both byte lists (\<open>string\<close>); a string
    stands for its UTF-8 bytes, which is what \<^verbatim>\<open>Buffer.from(str)\<close> produces;
  \<^item> the file system is a map from paths to nodes, and it is part of a \<open>world\<close> that also
    records every call of the fetch orchestrator and of the JPEG tool;
  \<^item> every rejected promise or thrown exception is a value \<open>Inl e\<close>;
  \<^item> the collaborators whose code is not in this file (configuration, \<^verbatim>\<open>doFind\<close>,
    \<^verbatim>\<open>waitOrFetchData\<close>, \<^verbatim>\<open>compressFile\<close>, the \<^verbatim>\<open>dcmj2pnm\<close> process, the DICOM parser,
    the merge policy) are the fields of an environment record \<open>env\<close>, so every theorem
    holds for all of them.
\<close>

subsection \<open>Data\<close>

type_synonym Buffer = string

text \<open>\<^verbatim>\<open>const term = '\r\n'\<close> (the name \<open>term\<close> is reserved in Isabelle).\<close>

definition term_crlf :: string where
  "term_crlf = [CHR 0x0D, CHR 0x0A]"

text \<open>\<^verbatim>\<open>export type DataFormat = 'pixelData' | 'bulkData' | 'rendered' | 'thumbnail'\<close>\<close>

datatype DataFormat = pixelData | bulkData | rendered | thumbnail

text \<open>The members of \<^verbatim>\<open>QUERY_LEVEL\<close> that this file uses.\<close>

datatype QUERY_LEVEL = STUDY | SERIES | IMAGE

text \<open>
  \<^verbatim>\<open>WadoRsArgs\<close>. An optional field is an \<open>option\<close>. The field \<^verbatim>\<open>frame\<close> is never read
  by \<^verbatim>\<open>doWadoRs\<close> and is left out.
\<close>

record WadoRsArgs =
  studyInstanceUid :: string
  seriesInstanceUid :: "string option"
  sopInstanceUid :: "string option"
  dataFormat :: "DataFormat option"

record WadoRsResponse =
  contentType :: string
  buffer :: Buffer

text \<open>\<^verbatim>\<open>QidoResponse\<close>: a dictionary from tag keys to \<^verbatim>\<open>{Value: string[], vr: string}\<close>.\<close>

record Attr =
  Value :: "string list"
  vr :: string

type_synonym QidoResponse = "string \<rightharpoonup> Attr"

text \<open>
  What the code can throw: the JavaScript \<^verbatim>\<open>TypeError\<close> and \<^verbatim>\<open>RangeError\<close>, the file-system
  errors of \<^verbatim>\<open>fs.readFile\<close> and \<^verbatim>\<open>fs.readdir\<close>, and \<^verbatim>\<open>new Error(msg)\<close>, which is also
  what a collaborator fails with.
\<close>

datatype error = TypeError | RangeError | ENOENT | EISDIR | ENOTDIR | Error string

text \<open>
  A path names nothing, a regular file with its bytes, or a directory with its entries in
  the order in which \<^verbatim>\<open>fs.readdir\<close> enumerates them.
\<close>

datatype node = File Buffer | Directory "string list"

type_synonym filesystem = "string \<rightharpoonup> node"

text \<open>
  The world of one request: the file system, the calls made to the fetch orchestrator
  (\<^verbatim>\<open>waitOrFetchData\<close>) and the argument vectors with which \<^verbatim>\<open>dcmj2pnm\<close> was run, both in
  call order. Log lines are not modelled.
\<close>

record world =
  disk :: filesystem
  fetched :: "(string \<times> string \<times> string \<times> QUERY_LEVEL) list"
  executed :: "string list list"

text \<open>
  The result of \<^verbatim>\<open>dicomParser.parseDicom\<close>, as far as the code reads it: the element table
  (\<^verbatim>\<open>dataOffset\<close> and \<^verbatim>\<open>length\<close> of each element) and the byte array the offsets refer to.
  The field \<^verbatim>\<open>length\<close> is \<open>elLength\<close> here.
\<close>

record Element =
  dataOffset :: nat
  elLength :: nat

record DataSet =
  elements :: "string \<rightharpoonup> Element"
  byteArray :: Buffer

text \<open>
  The collaborators. A collaborator that changes the file system returns the error it
  threw, if any, and the file system it left behind.
  \<^item> \<open>STORAGE_PATH\<close>, \<open>MIMETYPE\<close>, \<open>XTRANSFER\<close>: the values of \<^verbatim>\<open>config.get\<close>;
  \<^item> \<open>doFind level study series sop\<close>: the metadata query, one result list per source;
  \<^item> \<open>deepmergeAll\<close>: \<^verbatim>\<open>deepmerge.all(_, {arrayMerge: combineMerge})\<close>;
  \<^item> \<open>waitOrFetchData study series sop level\<close>, \<open>compressFile filepath dir syntax\<close>;
  \<^item> \<open>dcmj2pnm args\<close>: the external process started by \<^verbatim>\<open>execFile('dcmj2pnm', args)\<close>;
  \<^item> \<open>parseDicom\<close>: the DICOM parser;
  \<^item> \<open>finish i\<close>: the time at which the \<open>i\<close>-th concurrent per-file transform settles.
\<close>

record env =
  STORAGE_PATH :: string
  MIMETYPE :: string
  XTRANSFER :: string
  doFind :: "QUERY_LEVEL \<Rightarrow> string \<Rightarrow> string \<Rightarrow> string \<Rightarrow> error + QidoResponse list list"
  deepmergeAll :: "QidoResponse list list \<Rightarrow> QidoResponse list"
  waitOrFetchData :: "string \<Rightarrow> string \<Rightarrow> string \<Rightarrow> QUERY_LEVEL \<Rightarrow> filesystem \<Rightarrow> error option \<times> filesystem"
  compressFile :: "string \<Rightarrow> string \<Rightarrow> string option \<Rightarrow> filesystem \<Rightarrow> error option \<times> filesystem"
  dcmj2pnm :: "string list \<Rightarrow> filesystem \<Rightarrow> error option \<times> filesystem"
  parseDicom :: "Buffer \<Rightarrow> error + DataSet"
  finish :: "nat \<Rightarrow> nat"

subsection \<open>Library functions the code calls\<close>

text \<open>
  \<^verbatim>\<open>path.join(a, b)\<close> for path segments that need no normalisation (plain names such as
  UIDs, without \<^verbatim>\<open>.\<close>, \<^verbatim>\<open>..\<close> or separators at the seam): empty segments are skipped, and
  joining nothing gives \<^verbatim>\<open>.\<close>.
\<close>

definition pathJoin :: "string \<Rightarrow> string \<Rightarrow> string" where
  "pathJoin a b =
     (if b = [] then (if a = [] then ''.'' else a)
      else if a = [] then b
      else a @ ''/'' @ b)"

text \<open>
  Modelled from the spec: \<^verbatim>\<open>fileExists\<close> of \<^verbatim>\<open>utils/fileHelper\<close> is not part of the
  evaluated file. The spec: "existence checks are pure booleans and cannot fail". The code
  asks \<^verbatim>\<open>stat.isDirectory()\<close> of a path for which it answered true, so it holds for
  directories as well as for files.
\<close>

definition fileExists :: "filesystem \<Rightarrow> string \<Rightarrow> bool" where
  "fileExists fs p = (fs p \<noteq> None)"

text \<open>\<^verbatim>\<open>(await fs.stat(p)).isDirectory()\<close>, for a path that exists.\<close>

fun isDirectory :: "node \<Rightarrow> bool" where
  "isDirectory (Directory es) = True"
| "isDirectory (File b) = False"

text \<open>\<^verbatim>\<open>fs.readFile(p)\<close> and \<^verbatim>\<open>fs.readdir(p)\<close>.\<close>

definition readFile :: "filesystem \<Rightarrow> string \<Rightarrow> error + Buffer" where
  "readFile fs p =
     (case fs p of
        None \<Rightarrow> Inl ENOENT
      | Some (Directory es) \<Rightarrow> Inl EISDIR
      | Some (File b) \<Rightarrow> Inr b)"

definition readdir :: "filesystem \<Rightarrow> string \<Rightarrow> error + string list" where
  "readdir fs p =
     (case fs p of
        None \<Rightarrow> Inl ENOENT
      | Some (File b) \<Rightarrow> Inl ENOTDIR
      | Some (Directory es) \<Rightarrow> Inr es)"

text \<open>
  \<^verbatim>\<open>Buffer.from(arrayBuffer, byteOffset, length)\<close>: a view of \<open>len\<close> bytes at \<open>off\<close>; a
  \<^verbatim>\<open>RangeError\<close> when the offset or the length is outside of the buffer's bounds.
\<close>

definition bufferFrom :: "Buffer \<Rightarrow> nat \<Rightarrow> nat \<Rightarrow> error + Buffer" where
  "bufferFrom ab off len =
     (if length ab < off then Inl RangeError
      else if length ab - off < len then Inl RangeError
      else Inr (take len (drop off ab)))"

text \<open>
  \<^verbatim>\<open>Promise.all\<close> over the per-file transforms. The promises settle in the order of their
  finishing times. A fulfilled value is stored in the result array at the index of its
  promise; the first promise that rejects rejects the whole with its error; the array is
  delivered once all are fulfilled. \<open>outcomes\<close> holds what each promise settles with, by
  index; the value of a transform that opted out is \<^verbatim>\<open>undefined\<close>, which is \<open>None\<close>, and so
  is a slot not yet filled.
\<close>

definition completionOrder :: "env \<Rightarrow> nat \<Rightarrow> nat list" where
  "completionOrder e n = sort_key (finish e) [0..<n]"

fun settle :: "nat list \<Rightarrow> (error + Buffer option) list \<Rightarrow> Buffer option list
    \<Rightarrow> error + Buffer option list" where
  "settle [] outcomes slots = Inr slots"
| "settle (i # order) outcomes slots =
     (case outcomes ! i of
        Inl err \<Rightarrow> Inl err
      | Inr v \<Rightarrow> settle order outcomes (slots[i := v]))"

definition promiseAll :: "nat list \<Rightarrow> (error + Buffer option) list \<Rightarrow> error + Buffer option list" where
  "promiseAll order outcomes = settle order outcomes (replicate (length outcomes) None)"

text \<open>\<^verbatim>\<open>buffers.filter((b) => !!b)\<close>: a \<^verbatim>\<open>Buffer\<close> object is always truthy, \<^verbatim>\<open>undefined\<close> never.\<close>

fun present :: "'a option list \<Rightarrow> 'a list" where
  "present [] = []"
| "present (None # bs) = present bs"
| "present (Some b # bs) = b # present bs"

subsection \<open>convertToJpeg\<close>

text \<open>
  \<^verbatim>\<open>await execFile('dcmj2pnm', args)\<close>: the call is recorded, the tool acts on the files.
\<close>

definition execFile :: "env \<Rightarrow> world \<Rightarrow> string list \<Rightarrow> error option \<times> world" where
  "execFile e w args =
     (case dcmj2pnm e args (disk w) of
        (r, fs') \<Rightarrow> (r, w\<lparr>disk := fs', executed := executed w @ [args]\<rparr>))"

text \<open>Lines 63 to 78: probe \<^verbatim>\<open>filepath.jpg\<close>, then \<^verbatim>\<open>filepath.0.jpg\<close>, and read the one found.\<close>

definition probeJpeg :: "filesystem \<Rightarrow> string \<Rightarrow> error + Buffer option" where
  "probeJpeg fs filepath =
     (if fileExists fs (filepath @ ''.jpg'') then
        map_sum id Some (readFile fs (filepath @ ''.jpg''))
      else if fileExists fs (filepath @ ''.0.jpg'') then
        map_sum id Some (readFile fs (filepath @ ''.0.jpg''))
      else Inr None)"

definition firstArgs :: "string \<Rightarrow> bool \<Rightarrow> string list" where
  "firstArgs filepath asThumbnail =
     [''+oj'', ''+Jq'', (if asThumbnail then ''10'' else ''100''), filepath, filepath @ ''.jpg'']"

definition retryArgs :: "string \<Rightarrow> bool \<Rightarrow> string list" where
  "retryArgs filepath asThumbnail =
     [''+oj'', ''+Jq'', (if asThumbnail then ''10'' else ''100''), ''+Fa'', filepath, filepath]"

text \<open>
  \<^verbatim>\<open>convertToJpeg(filepath, asThumbnail)\<close>: \<open>Inr (Some bytes)\<close> is the JPEG, \<open>Inr None\<close> is
  \<^verbatim>\<open>undefined\<close>, \<open>Inl e\<close> is a rejection.
\<close>

definition convertToJpeg :: "env \<Rightarrow> world \<Rightarrow> string \<Rightarrow> bool \<Rightarrow> (error + Buffer option) \<times> world" where
  "convertToJpeg e w filepath asThumbnail =
     (case execFile e w (firstArgs filepath asThumbnail) of
        (None, w1) \<Rightarrow> (probeJpeg (disk w1) filepath, w1)
      | (Some e1, w1) \<Rightarrow>
          (case execFile e w1 (retryArgs filepath asThumbnail) of
             (None, w2) \<Rightarrow> (probeJpeg (disk w2) filepath, w2)
           | (Some e2, w2) \<Rightarrow> (Inl e2, w2)))"

subsection \<open>addFileToBuffer\<close>

text \<open>Lines 95 to 105: the transfer syntax is forced when a data format is given; a failure
  of \<^verbatim>\<open>compressFile\<close> is logged and dropped, what it did to the files stays.\<close>

definition compress :: "env \<Rightarrow> world \<Rightarrow> string \<Rightarrow> string \<Rightarrow> DataFormat option \<Rightarrow> world" where
  "compress e w filepath pathname fmt =
     (let transferSyntax = (case fmt of None \<Rightarrow> None | Some f \<Rightarrow> Some ''1.2.840.10008.1.2'')
      in w\<lparr>disk := snd (compressFile e filepath pathname transferSyntax (disk w))\<rparr>)"

text \<open>Lines 114 to 117, after the header line: the Pixel Data element of the parsed data set.
  Reading \<^verbatim>\<open>dataOffset\<close> of a missing element is a \<^verbatim>\<open>TypeError\<close>. The code views
  \<^verbatim>\<open>dataset.byteArray.buffer\<close>, the memory under the byte array; the model takes the byte
  array to start at offset 0 of its memory, as the buffer that \<^verbatim>\<open>fs.readFile\<close> allocates for
  a file does, so both hold the same bytes.\<close>

definition pixelDataOf :: "env \<Rightarrow> Buffer \<Rightarrow> error + Buffer" where
  "pixelDataOf e data =
     (case parseDicom e data of
        Inl err \<Rightarrow> Inl err
      | Inr dataset \<Rightarrow>
          (case elements dataset ''x7fe00010'' of
             None \<Rightarrow> Inl TypeError
           | Some pixelDataElement \<Rightarrow>
               bufferFrom (byteArray dataset) (dataOffset pixelDataElement) (elLength pixelDataElement)))"

text \<open>Lines 132 to 135: header line, blank line, payload, line end. \<^verbatim>\<open>Buffer.concat\<close> throws a
  \<^verbatim>\<open>TypeError\<close> on a list that holds \<^verbatim>\<open>undefined\<close>.\<close>

definition wrapPart :: "string \<Rightarrow> Buffer option \<Rightarrow> error + Buffer" where
  "wrapPart header returnData =
     (case returnData of
        None \<Rightarrow> Inl TypeError
      | Some payload \<Rightarrow> Inr (header @ term_crlf @ payload @ term_crlf))"

definition addFileToBuffer :: "env \<Rightarrow> world \<Rightarrow> string \<Rightarrow> string \<Rightarrow> DataFormat option \<Rightarrow> (error + Buffer) \<times> world" where
  "addFileToBuffer e w pathname filename fmt =
     (let filepath = pathJoin pathname filename;
          w1 = compress e w filepath pathname fmt
      in case readFile (disk w1) filepath of
           Inl err \<Rightarrow> (Inl err, w1)
         | Inr data \<Rightarrow>
             (if fmt = Some bulkData \<or> fmt = Some pixelData then
                (case pixelDataOf e data of
                   Inl err \<Rightarrow> (Inl err, w1)
                 | Inr returnData \<Rightarrow>
                     (wrapPart (''Content-Type:application/octet-stream;'' @ term_crlf) (Some returnData), w1))
              else if fmt = Some rendered then
                (case convertToJpeg e w1 filepath False of
                   (Inl err, w2) \<Rightarrow> (Inl err, w2)
                 | (Inr returnData, w2) \<Rightarrow>
                     (wrapPart (''Content-Type:image/jpeg;'' @ term_crlf) returnData, w2))
              else
                (wrapPart (''Content-Type:'' @ MIMETYPE e @ '';transfer-syntax:'' @ XTRANSFER e @ term_crlf)
                   (Some data), w1)))"

subsection \<open>doWadoRs\<close>

text \<open>JavaScript truthiness of an optional string, and \<^verbatim>\<open>x ?? ''\<close>.\<close>

fun truthy :: "string option \<Rightarrow> bool" where
  "truthy None = False"
| "truthy (Some s) = (s \<noteq> [])"

fun orEmpty :: "string option \<Rightarrow> string" where
  "orEmpty None = []"
| "orEmpty (Some s) = s"

text \<open>Lines 141 to 152: the paths and the query level.\<close>

definition studyPath :: "env \<Rightarrow> WadoRsArgs \<Rightarrow> string" where
  "studyPath e req = pathJoin (STORAGE_PATH e) (studyInstanceUid req)"

definition queryLevel :: "WadoRsArgs \<Rightarrow> QUERY_LEVEL" where
  "queryLevel req = (if truthy (seriesInstanceUid req) then SERIES else STUDY)"

definition filename :: "WadoRsArgs \<Rightarrow> string" where
  "filename req = (if truthy (sopInstanceUid req) then orEmpty (sopInstanceUid req) else [])"

definition pathname :: "env \<Rightarrow> WadoRsArgs \<Rightarrow> string" where
  "pathname e req =
     (if truthy (sopInstanceUid req) then pathJoin (studyPath e req) (orEmpty (sopInstanceUid req))
      else studyPath e req)"

text \<open>
  Lines 165 to 172: the callbacks of \<^verbatim>\<open>json.map\<close> contain no \<^verbatim>\<open>await\<close>, so they run one
  after the other in the order of \<^verbatim>\<open>json\<close>: each pushes its instance UID and starts its
  existence check. The result is the list \<^verbatim>\<open>foundInstances\<close> and the list of settled
  checks. \<^verbatim>\<open>Value[0]\<close> of an empty \<^verbatim>\<open>Value\<close> is \<^verbatim>\<open>undefined\<close>, on which \<^verbatim>\<open>path.join\<close> throws
  a \<^verbatim>\<open>TypeError\<close> that rejects the whole \<^verbatim>\<open>Promise.all\<close>.
\<close>

fun existenceChecks :: "filesystem \<Rightarrow> string \<Rightarrow> QidoResponse list \<Rightarrow> error + (string list \<times> bool list)" where
  "existenceChecks fs sp [] = Inr ([], [])"
| "existenceChecks fs sp (inst # json) =
     (case inst ''00080018'' of
        None \<Rightarrow>
          (case existenceChecks fs sp json of
             Inl err \<Rightarrow> Inl err
           | Inr (found, checks) \<Rightarrow> Inr (found, True # checks))
      | Some a \<Rightarrow>
          (case Value a of
             [] \<Rightarrow> Inl TypeError
           | i # _ \<Rightarrow>
               (case existenceChecks fs sp json of
                  Inl err \<Rightarrow> Inl err
                | Inr (found, checks) \<Rightarrow> Inr (i # found, fileExists fs (pathJoin sp i) # checks))))"

text \<open>
  Lines 154 to 180, the cache check: the variables \<^verbatim>\<open>useCache\<close> (the spec's \<open>hit\<close>),
  \<^verbatim>\<open>foundInstances\<close> (the spec's expected instances) and \<^verbatim>\<open>isDir\<close>. It only reads.
\<close>

record cache =
  useCache :: bool
  foundInstances :: "string list"
  isDir :: bool

definition isDirScope :: "filesystem \<Rightarrow> string \<Rightarrow> bool" where
  "isDirScope fs p = (case fs p of None \<Rightarrow> True | Some n \<Rightarrow> isDirectory n)"

definition checkCache :: "env \<Rightarrow> world \<Rightarrow> WadoRsArgs \<Rightarrow> error + cache" where
  "checkCache e w req =
     (if isDirScope (disk w) (pathname e req) then
        (case doFind e IMAGE (studyInstanceUid req) (orEmpty (seriesInstanceUid req))
                (orEmpty (sopInstanceUid req)) of
           Inl err \<Rightarrow> Inl err
         | Inr results \<Rightarrow>
             (case existenceChecks (disk w) (studyPath e req) (deepmergeAll e results) of
                Inl err \<Rightarrow> Inl err
              | Inr (found, foundPromises) \<Rightarrow>
                  Inr \<lparr>useCache = foldl (\<lambda>prev curr. prev \<and> curr) True foundPromises,
                       foundInstances = found, isDir = True\<rparr>))
      else
        Inr \<lparr>useCache = fileExists (disk w) (pathname e req), foundInstances = [], isDir = False\<rparr>)"

text \<open>Lines 182 to 187, the fetch trigger.\<close>

definition ensureFetched :: "env \<Rightarrow> world \<Rightarrow> WadoRsArgs \<Rightarrow> cache \<Rightarrow> error option \<times> world" where
  "ensureFetched e w req c =
     (if \<not> useCache c then
        (case waitOrFetchData e (studyInstanceUid req) (orEmpty (seriesInstanceUid req))
                (orEmpty (sopInstanceUid req)) (queryLevel req) (disk w) of
           (r, fs') \<Rightarrow>
             (r, w\<lparr>disk := fs',
                   fetched := fetched w @ [(studyInstanceUid req, orEmpty (seriesInstanceUid req),
                                            orEmpty (sopInstanceUid req), queryLevel req)]\<rparr>))
      else (None, w))"

text \<open>Line 192: \<^verbatim>\<open>path.join(pathname, foundInstances[0])\<close> throws a \<^verbatim>\<open>TypeError\<close> when
  \<^verbatim>\<open>foundInstances[0]\<close> is \<^verbatim>\<open>undefined\<close>.\<close>

definition thumbnailPath :: "env \<Rightarrow> WadoRsArgs \<Rightarrow> cache \<Rightarrow> error + string" where
  "thumbnailPath e req c =
     (if isDir c then
        (case foundInstances c of
           [] \<Rightarrow> Inl TypeError
         | i # _ \<Rightarrow> Inr (pathJoin (pathname e req) i))
      else Inr (pathname e req))"

text \<open>Lines 189 to 203, the thumbnail branch.\<close>

definition thumbnailBranch :: "env \<Rightarrow> world \<Rightarrow> WadoRsArgs \<Rightarrow> cache \<Rightarrow> (error + WadoRsResponse) \<times> world" where
  "thumbnailBranch e w req c =
     (case thumbnailPath e req c of
        Inl err \<Rightarrow> (Inl err, w)
      | Inr filePath \<Rightarrow>
          (case convertToJpeg e w filePath True of
             (Inl err, w') \<Rightarrow> (Inl err, w')
           | (Inr (Some buff), w') \<Rightarrow> (Inr \<lparr>contentType = ''image/jpeg'', buffer = buff\<rparr>, w')
           | (Inr None, w') \<Rightarrow> (Inl (Error ''Failed to create thumbnail''), w')))"

text \<open>
  Lines 210 to 214: the callbacks of \<^verbatim>\<open>files.map\<close>. Every callback is started and none is
  cancelled, whatever becomes of the others: a file that is not among \<^verbatim>\<open>foundInstances\<close>
  yields \<^verbatim>\<open>undefined\<close>, any other file what \<^verbatim>\<open>addFileToBuffer\<close> settles with. The result is
  the outcome of every transform, by index, and the world after all of them. The model
  runs the transforms one after the other in the order of \<^verbatim>\<open>files\<close>, each to its end; in
  which order they settle, and so which rejection is the first, is the business of
  \<open>promiseAll\<close>.
\<close>

fun transformEach :: "env \<Rightarrow> world \<Rightarrow> string \<Rightarrow> string list \<Rightarrow> DataFormat option \<Rightarrow> string list
    \<Rightarrow> (error + Buffer option) list \<times> world" where
  "transformEach e w pn found fmt [] = ([], w)"
| "transformEach e w pn found fmt (file # files) =
     (if file \<in> set found then
        (case addFileToBuffer e w pn file fmt of
           (r, w1) \<Rightarrow>
             (case transformEach e w1 pn found fmt files of
                (rs, w2) \<Rightarrow> (map_sum id Some r # rs, w2)))
      else
        (case transformEach e w pn found fmt files of
           (rs, w2) \<Rightarrow> (Inr None # rs, w2)))"

text \<open>Lines 207 to 219: the list \<^verbatim>\<open>buffers\<close>, or the error that ends the request, and the
  world once every transform that was started has ended.\<close>

definition collectBuffers :: "env \<Rightarrow> world \<Rightarrow> WadoRsArgs \<Rightarrow> cache \<Rightarrow> (error + Buffer option list) \<times> world" where
  "collectBuffers e w req c =
     (if isDir c then
        (case readdir (disk w) (pathname e req) of
           Inl err \<Rightarrow> (Inl err, w)
         | Inr files \<Rightarrow>
             (case transformEach e w (pathname e req) (foundInstances c) (dataFormat req) files of
                (outcomes, w') \<Rightarrow> (promiseAll (completionOrder e (length outcomes)) outcomes, w')))
      else
        (case addFileToBuffer e w (studyPath e req) (filename req) (dataFormat req) of
           (Inl err, w') \<Rightarrow> (Inl err, w')
         | (Inr b, w') \<Rightarrow> (Inr [Some b], w')))"

text \<open>Lines 223 to 232: the multipart body, with the study UID as the boundary.\<close>

definition assemble :: "string \<Rightarrow> Buffer option list \<Rightarrow> Buffer" where
  "assemble boundary buffers =
     concat (foldl (\<lambda>buffArray buff. buffArray @ [''--'' @ boundary @ term_crlf, buff]) []
               (present buffers)
             @ [''--'' @ boundary @ ''--'' @ term_crlf])"

text \<open>Lines 235 to 243: the content type of the response.\<close>

definition partType :: "DataFormat option \<Rightarrow> string" where
  "partType fmt =
     (if fmt = Some bulkData \<or> fmt = Some pixelData then ''application/octet-stream''
      else if fmt = Some rendered then ''image/jpeg''
      else ''application/dicom'')"

definition multipartResponse :: "WadoRsArgs \<Rightarrow> Buffer option list \<Rightarrow> WadoRsResponse" where
  "multipartResponse req buffers =
     \<lparr>contentType = ''multipart/related;type='' @ [CHR 0x27] @ partType (dataFormat req)
                      @ [CHR 0x27] @ '';boundary='' @ studyInstanceUid req,
      buffer = assemble (studyInstanceUid req) buffers\<rparr>"

text \<open>
  Lines 189 to 252, what follows the fetch: the thumbnail branch, or the parts and the
  multipart response. The \<^verbatim>\<open>try\<close>/\<^verbatim>\<open>catch\<close> of lines 206 to 252 logs and throws the error
  again.
\<close>

definition serve :: "env \<Rightarrow> world \<Rightarrow> WadoRsArgs \<Rightarrow> cache \<Rightarrow> (error + WadoRsResponse) \<times> world" where
  "serve e w req c =
     (if dataFormat req = Some thumbnail then thumbnailBranch e w req c
      else
        (case collectBuffers e w req c of
           (Inl err, w') \<Rightarrow> (Inl err, w')
         | (Inr buffers, w') \<Rightarrow> (Inr (multipartResponse req buffers), w')))"

text \<open>\<^verbatim>\<open>doWadoRs\<close>: the response or the error, and the world the request leaves behind.\<close>

definition doWadoRs :: "env \<Rightarrow> world \<Rightarrow> WadoRsArgs \<Rightarrow> (error + WadoRsResponse) \<times> world" where
  "doWadoRs e w req =
     (case checkCache e w req of
        Inl err \<Rightarrow> (Inl err, w)
      | Inr c \<Rightarrow>
          (case ensureFetched e w req c of
             (Some err, w1) \<Rightarrow> (Inl err, w1)
           | (None, w1) \<Rightarrow> serve e w1 req c))"

subsection \<open>Notions of the specification\<close>

text \<open>
  The command line of the tool is \<^verbatim>\<open>dcmj2pnm [options] dcmfile-in [bitmap-out]\<close>: the output
  file is the last argument.
\<close>

definition outputArg :: "string list \<Rightarrow> string" where
  "outputArg args = last args"

text \<open>
  The parts of a list of file names, in the order of the list: the first part is the
  transform of the first name, and so on, each transform starting in the world its
  predecessor left. This is what the spec asks of the assembler's input; \<open>transformEach\<close>
  and \<open>promiseAll\<close> are what the code does.
\<close>

fun transformInOrder :: "env \<Rightarrow> world \<Rightarrow> string \<Rightarrow> DataFormat option \<Rightarrow> string list
    \<Rightarrow> (error + Buffer list) \<times> world" where
  "transformInOrder e w pn fmt [] = (Inr [], w)"
| "transformInOrder e w pn fmt (name # names) =
     (case addFileToBuffer e w pn name fmt of
        (Inl err, w1) \<Rightarrow> (Inl err, w1)
      | (Inr part, w1) \<Rightarrow>
          (case transformInOrder e w1 pn fmt names of
             (Inl err, w2) \<Rightarrow> (Inl err, w2)
           | (Inr parts, w2) \<Rightarrow> (Inr (part # parts), w2)))"

subsection \<open>Concrete scenarios\<close>

text \<open>A metadata record that carries the SOP instance UID \<open>i\<close> under tag \<^verbatim>\<open>00080018\<close>.\<close>

definition inst :: "string \<Rightarrow> QidoResponse" where
  "inst i = [''00080018'' \<mapsto> \<lparr>Value = [i], vr = ''UI''\<rparr>]"

text \<open>
  A base environment: storage under \<^verbatim>\<open>data\<close>; study \<^verbatim>\<open>S2\<close> has the instances \<^verbatim>\<open>I1\<close>, \<^verbatim>\<open>I2\<close>,
  study \<^verbatim>\<open>S3\<close> the instances \<^verbatim>\<open>a\<close>, \<^verbatim>\<open>b\<close>, \<^verbatim>\<open>c\<close>, any other study none, and a query
  with an instance UID returns that instance only; the fetch and the transcoder succeed and
  leave the files as they are; the JPEG tool succeeds and writes nothing; nothing parses.
\<close>

definition instancesOf :: "string \<Rightarrow> string list" where
  "instancesOf study =
     (if study = ''S2'' then [''I1'', ''I2'']
      else if study = ''S3'' then [''a'', ''b'', ''c'']
      else [])"

definition env0 :: env where
  "env0 =
     \<lparr>STORAGE_PATH = ''data'', MIMETYPE = ''application/dicom'', XTRANSFER = ''1.2.840.10008.1.2.1'',
      doFind = (\<lambda>level study series sop.
                  Inr [map inst (filter (\<lambda>i. sop = [] \<or> i = sop) (instancesOf study))]),
      deepmergeAll = concat,
      waitOrFetchData = (\<lambda>study series sop level fs. (None, fs)),
      compressFile = (\<lambda>filepath dir syntax fs. (None, fs)),
      dcmj2pnm = (\<lambda>args fs. (None, fs)),
      parseDicom = (\<lambda>data. Inl (Error ''not DICOM'')),
      finish = (\<lambda>i. i)\<rparr>"

text \<open>
  A JPEG tool. Without \<^verbatim>\<open>+Fa\<close> it writes the output file it is given, with \<^verbatim>\<open>+Fa\<close> it writes
  one file per frame, \<^verbatim>\<open><output>.<frame>.jpg\<close>; either mode can be made to fail.
\<close>

definition tool :: "bool \<Rightarrow> bool \<Rightarrow> string list \<Rightarrow> filesystem \<Rightarrow> error option \<times> filesystem" where
  "tool okSingle okAll args fs =
     (if ''+Fa'' \<in> set args then
        (if okAll then (None, fs(last args @ ''.0.jpg'' \<mapsto> File ''JPEG frame 0''))
         else (Some (Error ''all frames failed''), fs))
      else
        (if okSingle then (None, fs(last args \<mapsto> File ''JPEG''))
         else (Some (Error ''single frame failed''), fs)))"

definition request :: "string \<Rightarrow> WadoRsArgs" where
  "request study =
     \<lparr>studyInstanceUid = study, seriesInstanceUid = None, sopInstanceUid = None, dataFormat = None\<rparr>"

text \<open>Study \<^verbatim>\<open>S2\<close> on disk with \<^verbatim>\<open>I1\<close> only.\<close>

definition worldS2 :: world where
  "worldS2 =
     \<lparr>disk = [''data/S2'' \<mapsto> Directory [''I1''], ''data/S2/I1'' \<mapsto> File ''one''],
      fetched = [], executed = []\<rparr>"

text \<open>Requests for one instance of \<^verbatim>\<open>S2\<close>, and thumbnail requests.\<close>

definition requestInstance :: "string \<Rightarrow> string \<Rightarrow> WadoRsArgs" where
  "requestInstance study sop = (request study)\<lparr>sopInstanceUid := Some sop\<rparr>"

definition thumbnailOf :: "WadoRsArgs \<Rightarrow> WadoRsArgs" where
  "thumbnailOf req = req\<lparr>dataFormat := Some thumbnail\<rparr>"

text \<open>Study \<^verbatim>\<open>S3\<close> complete on disk, its directory starting with a file that is no instance;
  and a study \<^verbatim>\<open>S0\<close> for which the metadata query finds nothing.\<close>

definition worldS3 :: world where
  "worldS3 =
     \<lparr>disk = [''data/S3'' \<mapsto> Directory [''x'', ''a'', ''b'', ''c''],
              ''data/S3/x'' \<mapsto> File ''X'', ''data/S3/a'' \<mapsto> File ''A'',
              ''data/S3/b'' \<mapsto> File ''B'', ''data/S3/c'' \<mapsto> File ''C'',
              ''data/S0'' \<mapsto> Directory [''x''], ''data/S0/x'' \<mapsto> File ''X''],
      fetched = [], executed = []\<rparr>"

text \<open>A parser that finds the Pixel Data element at a given offset and length of the bytes
  it is given, and a stored object of ten bytes.\<close>

definition parserAt :: "nat \<Rightarrow> nat \<Rightarrow> Buffer \<Rightarrow> error + DataSet" where
  "parserAt off len data =
     Inr \<lparr>elements = [''x7fe00010'' \<mapsto> \<lparr>dataOffset = off, elLength = len\<rparr>], byteArray = data\<rparr>"

definition worldPix :: world where
  "worldPix =
     \<lparr>disk = [''data/S5'' \<mapsto> Directory [''p''], ''data/S5/p'' \<mapsto> File ''DICMabcXYZ''],
      fetched = [], executed = []\<rparr>"

text \<open>Requests for the rendered representation.\<close>

definition renderedOf :: "WadoRsArgs \<Rightarrow> WadoRsArgs" where
  "renderedOf req = req\<lparr>dataFormat := Some rendered\<rparr>"

text \<open>Study \<^verbatim>\<open>S3\<close> with the directory entries \<^verbatim>\<open>a\<close>, \<^verbatim>\<open>b\<close>, \<^verbatim>\<open>c\<close>, all expected; the part
  of an object under the base configuration; and an environment in which the third
  transform settles first, then the first, then the second.\<close>

definition worldABC :: world where
  "worldABC =
     \<lparr>disk = [''data/S3'' \<mapsto> Directory [''a'', ''b'', ''c''], ''data/S3/a'' \<mapsto> File ''A'',
              ''data/S3/b'' \<mapsto> File ''B'', ''data/S3/c'' \<mapsto> File ''C''],
      fetched = [], executed = []\<rparr>"

definition dicomPart :: "Buffer \<Rightarrow> Buffer" where
  "dicomPart data =
     ''Content-Type:application/dicom;transfer-syntax:1.2.840.10008.1.2.1'' @ [CHR 0x0D, CHR 0x0A]
     @ [CHR 0x0D, CHR 0x0A] @ data @ [CHR 0x0D, CHR 0x0A]"

definition envCAB :: env where
  "envCAB = env0\<lparr>finish := (\<lambda>i. if i = 0 then 1 else if i = 1 then 2 else 0)\<rparr>"




section \<open>Theorems\<close>

lemmas scenario_defs = env0_def instancesOf_def inst_def tool_def request_def requestInstance_def
  thumbnailOf_def worldS2_def worldS3_def

lemmas path_defs = pathname_def studyPath_def filename_def pathJoin_def queryLevel_def
  fileExists_def isDirScope_def readFile_def readdir_def

subsection \<open>Promise.all\<close>

lemma fold_update_nth:
  "j < length slots \<Longrightarrow>
   fold (\<lambda>i s. s[i := vals ! i]) order slots ! j = (if j \<in> set order then vals ! j else slots ! j)"
proof (induction order arbitrary: slots)
  case Nil
  then show ?case by simp
next
  case (Cons i order)
  then show ?case by (auto simp: nth_list_update)
qed

lemma fold_update_length: "length (fold (\<lambda>i s. s[i := vals ! i]) order slots) = length slots"
  by (induction order arbitrary: slots) auto

lemma slots_filled:
  assumes "set order = {..<length vals}"
  shows "fold (\<lambda>i s. s[i := vals ! i]) order (replicate (length vals) None) = vals"
proof (rule nth_equalityI)
  show "length (fold (\<lambda>i s. s[i := vals ! i]) order (replicate (length vals) None)) = length vals"
    by (simp add: fold_update_length)
next
  fix j assume "j < length (fold (\<lambda>i s. s[i := vals ! i]) order (replicate (length vals) None))"
  then have j: "j < length vals" by (simp add: fold_update_length)
  with assms show "fold (\<lambda>i s. s[i := vals ! i]) order (replicate (length vals) None) ! j = vals ! j"
    by (simp add: fold_update_nth)
qed

lemma settle_fulfilled:
  "\<forall>i \<in> set order. i < length vals \<Longrightarrow>
   settle order (map Inr vals) slots = Inr (fold (\<lambda>i s. s[i := vals ! i]) order slots)"
  by (induction order arbitrary: slots) simp_all

lemma settle_Inr_all:
  "settle order outcomes slots = Inr res \<Longrightarrow> \<forall>i \<in> set order. \<exists>v. outcomes ! i = Inr v"
  by (induction order arbitrary: slots) (auto split: sum.splits)

lemma settle_Inl_some:
  "settle order outcomes slots = Inl err \<Longrightarrow> \<exists>i \<in> set order. outcomes ! i = Inl err"
  by (induction order arbitrary: slots) (auto split: sum.splits)

lemma promiseAll_fulfilled:
  assumes "set order = {..<length vals}"
  shows "promiseAll order (map Inr vals) = Inr vals"
proof -
  from assms have "\<forall>i \<in> set order. i < length vals" by auto
  then show ?thesis
    by (simp add: promiseAll_def settle_fulfilled slots_filled[OF assms])
qed

lemma promiseAll_index_preserving:
  assumes "set order = {..<length outcomes}"
  shows "(promiseAll order outcomes = Inr buffers) = (outcomes = map Inr buffers)"
proof
  assume r: "promiseAll order outcomes = Inr buffers"
  let ?vals = "map (\<lambda>r. case r of Inl err \<Rightarrow> None | Inr v \<Rightarrow> v) outcomes"
  from r have "\<forall>i \<in> set order. \<exists>v. outcomes ! i = Inr v"
    unfolding promiseAll_def by (rule settle_Inr_all)
  with assms have all: "\<forall>i < length outcomes. \<exists>v. outcomes ! i = Inr v" by auto
  have eq: "outcomes = map Inr ?vals"
  proof (rule nth_equalityI)
    show "length outcomes = length (map Inr ?vals)" by simp
  next
    fix i assume "i < length outcomes"
    with all show "outcomes ! i = map Inr ?vals ! i" by auto
  qed
  from assms have "set order = {..<length ?vals}" by simp
  then have "promiseAll order (map Inr ?vals) = Inr ?vals" by (rule promiseAll_fulfilled)
  with eq r have "buffers = ?vals" by simp
  with eq show "outcomes = map Inr buffers" by simp
next
  assume "outcomes = map Inr buffers"
  with assms show "promiseAll order outcomes = Inr buffers"
    by (simp add: promiseAll_fulfilled)
qed

lemma set_completionOrder: "set (completionOrder e n) = {..<n}"
  by (auto simp: completionOrder_def)

lemma promiseAll_completionOrder:
  "(promiseAll (completionOrder e (length outcomes)) outcomes = Inr buffers) = (outcomes = map Inr buffers)"
  by (rule promiseAll_index_preserving) (rule set_completionOrder)

lemma promiseAll_completionOrder_fulfilled:
  "promiseAll (completionOrder e (length vals)) (map Inr vals) = Inr vals"
  using promiseAll_completionOrder [of e "map Inr vals" vals] by simp

lemma promiseAll_rejection:
  "promiseAll order outcomes = Inl err \<Longrightarrow> \<exists>i \<in> set order. outcomes ! i = Inl err"
  unfolding promiseAll_def by (rule settle_Inl_some)

lemma execFile_finish: "execFile (e\<lparr>finish := f\<rparr>) w args = execFile e w args"
  by (simp add: execFile_def)

lemma convertToJpeg_finish: "convertToJpeg (e\<lparr>finish := f\<rparr>) w fp t = convertToJpeg e w fp t"
  by (simp add: convertToJpeg_def execFile_finish split: prod.splits option.splits)

lemma compress_finish: "compress (e\<lparr>finish := f\<rparr>) w fp pn fmt = compress e w fp pn fmt"
  by (simp add: compress_def)

lemma pixelDataOf_finish: "pixelDataOf (e\<lparr>finish := f\<rparr>) data = pixelDataOf e data"
  by (simp add: pixelDataOf_def)

lemma addFileToBuffer_finish: "addFileToBuffer (e\<lparr>finish := f\<rparr>) w pn fn fmt = addFileToBuffer e w pn fn fmt"
  by (simp add: addFileToBuffer_def Let_def convertToJpeg_finish compress_finish pixelDataOf_finish
           split: sum.splits)

lemma transformEach_finish:
  "transformEach (e\<lparr>finish := f\<rparr>) w pn found fmt fs = transformEach e w pn found fmt fs"
  by (induction fs arbitrary: w) (simp_all add: addFileToBuffer_finish split: prod.splits)

lemma studyPath_finish: "studyPath (e\<lparr>finish := f\<rparr>) req = studyPath e req"
  by (simp add: studyPath_def)

lemma pathname_finish: "pathname (e\<lparr>finish := f\<rparr>) req = pathname e req"
  by (simp add: pathname_def studyPath_finish)

lemma checkCache_finish: "checkCache (e\<lparr>finish := f\<rparr>) w req = checkCache e w req"
  by (simp add: checkCache_def pathname_finish studyPath_finish split: sum.splits)

lemma ensureFetched_finish: "ensureFetched (e\<lparr>finish := f\<rparr>) w req c = ensureFetched e w req c"
  by (simp add: ensureFetched_def)

subsection \<open>The cache check\<close>

lemma foldl_and: "foldl (\<lambda>prev curr. prev \<and> curr) b xs = (b \<and> list_all id xs)"
  by (induction xs arbitrary: b) auto

lemma existenceChecks_checks:
  "existenceChecks fs sp json = Inr (found, checks) \<Longrightarrow>
   list_all id checks = list_all (\<lambda>i. fileExists fs (pathJoin sp i)) found"
proof (induction json arbitrary: found checks)
  case Nil
  then show ?case by simp
next
  case (Cons inst json)
  then show ?case
    by (auto split: option.splits list.splits sum.splits)
qed

lemma checkCache_dir:
  assumes "checkCache e w req = Inr c" and "isDir c"
  shows "useCache c =
    list_all (\<lambda>i. fileExists (disk w) (pathJoin (studyPath e req) i)) (foundInstances c)"
  using assms
  by (auto simp: checkCache_def foldl_and dest!: existenceChecks_checks split: if_splits sum.splits)

text \<open>
  Claim C1. For a directory-scope request the hit value \<^verbatim>\<open>useCache\<close> is the AND-fold, from
  \<open>True\<close>, of the existence checks of \<^verbatim>\<open>storagePath/studyUid/<id>\<close> over the expected
  instances. Hence one missing file makes it false, whatever the others are, and an empty
  list of expected instances makes it true.
\<close>

theorem checkCache_all_or_nothing:
  assumes "checkCache e w req = Inr c" and "isDir c"
  shows "useCache c =
           foldl (\<lambda>prev curr. prev \<and> curr) True
             (map (\<lambda>i. fileExists (disk w) (pathJoin (studyPath e req) i)) (foundInstances c))
         \<and> ((\<exists>i \<in> set (foundInstances c). \<not> fileExists (disk w) (pathJoin (studyPath e req) i))
              \<longrightarrow> \<not> useCache c)
         \<and> (foundInstances c = [] \<longrightarrow> useCache c)"
proof -
  have "useCache c =
    list_all (\<lambda>i. fileExists (disk w) (pathJoin (studyPath e req) i)) (foundInstances c)"
    using assms by (rule checkCache_dir)
  then show ?thesis
    by (auto simp: foldl_and list_all_iff)
qed

lemma checkCache_S2:
  "checkCache env0 worldS2 (request ''S2'') =
     Inr \<lparr>useCache = False, foundInstances = [''I1'', ''I2''], isDir = True\<rparr>"
  unfolding checkCache_def
  by (simp add: scenario_defs path_defs)

lemma checkCache_S0:
  "checkCache env0 worldS3 (request ''S0'') =
     Inr \<lparr>useCache = True, foundInstances = [], isDir = True\<rparr>"
  unfolding checkCache_def by (simp add: scenario_defs path_defs)

text \<open>
  Study \<^verbatim>\<open>S2\<close> with \<^verbatim>\<open>I1\<close> on disk and \<^verbatim>\<open>I2\<close> missing: two expected instances, one file
  missing, no hit. Study \<^verbatim>\<open>S0\<close>, of which nothing is expected: a hit.
\<close>

theorem checkCache_all_or_nothing_witness:
  "checkCache env0 worldS2 (request ''S2'') =
     Inr \<lparr>useCache = False, foundInstances = [''I1'', ''I2''], isDir = True\<rparr>
   \<and> fileExists (disk worldS2) (pathJoin (studyPath env0 (request ''S2'')) ''I1'')
   \<and> \<not> fileExists (disk worldS2) (pathJoin (studyPath env0 (request ''S2'')) ''I2'')
   \<and> \<not> useCache \<lparr>useCache = False, foundInstances = [''I1'', ''I2''], isDir = True\<rparr>
   \<and> checkCache env0 worldS3 (request ''S0'') =
     Inr \<lparr>useCache = True, foundInstances = [], isDir = True\<rparr>
   \<and> useCache \<lparr>useCache = True, foundInstances = [], isDir = True\<rparr>"
  using checkCache_S2 checkCache_all_or_nothing [OF checkCache_S2]
    checkCache_S0 checkCache_all_or_nothing [OF checkCache_S0]
  by (simp add: fileExists_def worldS2_def studyPath_def pathJoin_def env0_def request_def)


subsection \<open>The fetch trigger\<close>

lemma execFile_fetched: "execFile e w args = (r, w') \<Longrightarrow> fetched w' = fetched w"
  by (auto simp: execFile_def split: prod.splits)

lemma convertToJpeg_fetched: "convertToJpeg e w fp t = (r, w') \<Longrightarrow> fetched w' = fetched w"
  by (auto simp: convertToJpeg_def split: prod.splits option.splits dest!: execFile_fetched)

lemma compress_fetched: "fetched (compress e w fp pn fmt) = fetched w"
  by (simp add: compress_def)

lemma addFileToBuffer_fetched: "addFileToBuffer e w pn fn fmt = (r, w') \<Longrightarrow> fetched w' = fetched w"
  by (auto simp: addFileToBuffer_def Let_def compress_fetched
           split: sum.splits prod.splits if_splits dest!: convertToJpeg_fetched)

lemma transformEach_fetched:
  "transformEach e w pn found fmt fs = (rs, w') \<Longrightarrow> fetched w' = fetched w"
proof (induction fs arbitrary: w rs w')
  case Nil
  then show ?case by simp
next
  case (Cons f fs)
  show ?case
  proof (cases "f \<in> set found")
    case False
    with Cons.prems Cons.IH show ?thesis
      by (auto split: prod.splits)
  next
    case True
    obtain r1 w1 where a: "addFileToBuffer e w pn f fmt = (r1, w1)" by force
    then have f1: "fetched w1 = fetched w" by (rule addFileToBuffer_fetched)
    obtain r2 w2 where t: "transformEach e w1 pn found fmt fs = (r2, w2)" by force
    then have f2: "fetched w2 = fetched w1" by (rule Cons.IH)
    from Cons.prems True a t f1 f2 show ?thesis
      by auto
  qed
qed

lemma collectBuffers_fetched: "collectBuffers e w req c = (r, w') \<Longrightarrow> fetched w' = fetched w"
  by (auto simp: collectBuffers_def split: if_splits sum.splits prod.splits
           dest!: transformEach_fetched addFileToBuffer_fetched)

lemma thumbnailBranch_fetched: "thumbnailBranch e w req c = (r, w') \<Longrightarrow> fetched w' = fetched w"
  by (auto simp: thumbnailBranch_def split: sum.splits prod.splits option.splits
           dest!: convertToJpeg_fetched)

lemma serve_fetched: "serve e w req c = (r, w') \<Longrightarrow> fetched w' = fetched w"
  by (auto simp: serve_def split: if_splits sum.splits prod.splits
           dest!: thumbnailBranch_fetched collectBuffers_fetched)

lemma ensureFetched_fetched:
  "ensureFetched e w req c = (r, w1) \<Longrightarrow>
   fetched w1 = fetched w @
     (if useCache c then []
      else [(studyInstanceUid req, orEmpty (seriesInstanceUid req), orEmpty (sopInstanceUid req),
             queryLevel req)])"
  by (auto simp: ensureFetched_def split: if_splits prod.splits)

lemma doWadoRs_after_fetch:
  assumes "checkCache e w req = Inr c" and "ensureFetched e w req c = (r, w1)"
  shows "fetched (snd (doWadoRs e w req)) = fetched w1"
proof (cases r)
  case (Some err)
  with assms show ?thesis by (simp add: doWadoRs_def)
next
  case None
  obtain r2 w2 where t: "serve e w1 req c = (r2, w2)" by force
  from serve_fetched[OF t] assms None t show ?thesis
    by (simp add: doWadoRs_def)
qed

lemma doWadoRs_fetched:
  assumes "checkCache e w req = Inr c"
  shows "fetched (snd (doWadoRs e w req)) =
           fetched w @
             (if useCache c then []
              else [(studyInstanceUid req, orEmpty (seriesInstanceUid req),
                     orEmpty (sopInstanceUid req), queryLevel req)])"
proof -
  obtain r w1 where f: "ensureFetched e w req c = (r, w1)" by force
  from doWadoRs_after_fetch[OF assms f] ensureFetched_fetched[OF f] show ?thesis by simp
qed























subsection \<open>Single objects\<close>

lemma checkCache_file:
  "disk w (pathname e req) = Some (File b) \<Longrightarrow>
   checkCache e w req = Inr \<lparr>useCache = True, foundInstances = [], isDir = False\<rparr>"
  by (simp add: checkCache_def isDirScope_def fileExists_def)

lemma checkCache_isDir:
  "checkCache e w req = Inr c \<Longrightarrow>
   isDir c = (disk w (pathname e req) = None \<or> (\<exists>es. disk w (pathname e req) = Some (Directory es)))"
  by (cases "disk w (pathname e req)"; cases "the (disk w (pathname e req))")
     (auto simp: checkCache_def isDirScope_def split: sum.splits prod.splits)

lemma checkCache_single_hit:
  "checkCache e w req = Inr c \<Longrightarrow> \<not> isDir c \<Longrightarrow> useCache c"
  by (auto simp: checkCache_def isDirScope_def fileExists_def split: if_splits sum.splits option.splits)

text \<open>
  Claim C9. When the target path is a regular file, the cache check takes the single-object
  branch with \<^verbatim>\<open>useCache\<close> true, and the request fetches nothing. So a request that does
  fetch has a target path that is a directory or does not exist, and its cache check took
  the directory branch: a missing instance is a directory-scope miss.
\<close>

theorem single_object_never_fetches:
  "(\<forall>b. disk w (pathname e req) = Some (File b) \<longrightarrow>
        checkCache e w req = Inr \<lparr>useCache = True, foundInstances = [], isDir = False\<rparr>
        \<and> fetched (snd (doWadoRs e w req)) = fetched w)
   \<and> (fetched (snd (doWadoRs e w req)) \<noteq> fetched w \<longrightarrow>
        (disk w (pathname e req) = None \<or> (\<exists>es. disk w (pathname e req) = Some (Directory es)))
        \<and> (\<exists>c. checkCache e w req = Inr c \<and> isDir c \<and> \<not> useCache c))"
proof (intro conjI allI impI)
  fix b assume f: "disk w (pathname e req) = Some (File b)"
  then show c: "checkCache e w req = Inr \<lparr>useCache = True, foundInstances = [], isDir = False\<rparr>"
    by (rule checkCache_file)
  from doWadoRs_fetched[OF c] show "fetched (snd (doWadoRs e w req)) = fetched w" by simp
next
  assume n: "fetched (snd (doWadoRs e w req)) \<noteq> fetched w"
  have "\<exists>c. checkCache e w req = Inr c \<and> \<not> useCache c"
  proof (cases "checkCache e w req")
    case (Inl err)
    then have "fetched (snd (doWadoRs e w req)) = fetched w" by (simp add: doWadoRs_def)
    with n show ?thesis by simp
  next
    case (Inr c)
    from doWadoRs_fetched[OF Inr] n have "\<not> useCache c" by auto
    with Inr show ?thesis by simp
  qed
  then obtain c where c: "checkCache e w req = Inr c" and m: "\<not> useCache c" by blast
  from checkCache_single_hit[OF c] m have d: "isDir c" by blast
  with c m show "\<exists>c. checkCache e w req = Inr c \<and> isDir c \<and> \<not> useCache c" by blast
  from checkCache_isDir[OF c] d
  show "disk w (pathname e req) = None \<or> (\<exists>es. disk w (pathname e req) = Some (Directory es))"
    by simp
qed

lemma checkCache_S2_I2:
  "checkCache env0 worldS2 (requestInstance ''S2'' ''I2'') =
     Inr \<lparr>useCache = False, foundInstances = [''I2''], isDir = True\<rparr>"
  unfolding checkCache_def
  by (simp add: scenario_defs path_defs)

text \<open>
  Instance \<^verbatim>\<open>I1\<close> of \<^verbatim>\<open>S2\<close> is a file: nothing is fetched. Instance \<^verbatim>\<open>I2\<close> is missing: the
  request fetches, from the directory branch.
\<close>

theorem single_object_never_fetches_witness:
  "disk worldS2 (pathname env0 (requestInstance ''S2'' ''I1'')) = Some (File ''one'')
   \<and> fetched (snd (doWadoRs env0 worldS2 (requestInstance ''S2'' ''I1''))) = fetched worldS2
   \<and> fetched (snd (doWadoRs env0 worldS2 (requestInstance ''S2'' ''I2''))) \<noteq> fetched worldS2
   \<and> disk worldS2 (pathname env0 (requestInstance ''S2'' ''I2'')) = None
   \<and> checkCache env0 worldS2 (requestInstance ''S2'' ''I2'') =
        Inr \<lparr>useCache = False, foundInstances = [''I2''], isDir = True\<rparr>"
proof -
  have f: "disk worldS2 (pathname env0 (requestInstance ''S2'' ''I1'')) = Some (File ''one'')"
    by (simp add: scenario_defs path_defs)
  have n: "fetched (snd (doWadoRs env0 worldS2 (requestInstance ''S2'' ''I2''))) \<noteq> fetched worldS2"
    using doWadoRs_fetched[OF checkCache_S2_I2] by simp
  have d: "disk worldS2 (pathname env0 (requestInstance ''S2'' ''I2'')) = None"
    by (simp add: scenario_defs path_defs)
  from single_object_never_fetches [of worldS2 env0 "requestInstance ''S2'' ''I1''"] f
    single_object_never_fetches [of worldS2 env0 "requestInstance ''S2'' ''I2''"] n d checkCache_S2_I2
  show ?thesis by simp
qed

subsection \<open>The thumbnail branch\<close>

lemma doWadoRs_thumbnail:
  assumes "dataFormat req = Some thumbnail" and "checkCache e w req = Inr c"
    and "ensureFetched e w req c = (None, w1)"
  shows "doWadoRs e w req = thumbnailBranch e w1 req c"
  using assms by (simp add: doWadoRs_def serve_def)

lemma thumbnailBranch_Inr:
  assumes "thumbnailBranch e w1 req c = (Inr resp, w')"
  shows "\<exists>filePath. thumbnailPath e req c = Inr filePath
          \<and> convertToJpeg e w1 filePath True = (Inr (Some (buffer resp)), w')
          \<and> contentType resp = ''image/jpeg''"
  using assms
  by (auto simp: thumbnailBranch_def split: sum.splits prod.splits option.splits)

text \<open>
  Claim C7. A thumbnail request never reaches the multipart assembler. With the cache check
  and the fetch done and the render target known: when the renderer returns bytes, the
  response is the bare \<^verbatim>\<open>{contentType: 'image/jpeg', buffer}\<close>; when it returns \<^verbatim>\<open>undefined\<close>,
  the request fails with \<^verbatim>\<open>Error('Failed to create thumbnail')\<close>. Every response a thumbnail
  request produces is of the first kind: its content type is \<^verbatim>\<open>image/jpeg\<close>, never
  \<^verbatim>\<open>multipart/related\<close>, and its buffer is what the renderer returned.
\<close>

theorem thumbnail_short_circuit:
  assumes "dataFormat req = Some thumbnail"
  shows "(checkCache e w req = Inr c \<and> ensureFetched e w req c = (None, w1)
              \<and> thumbnailPath e req c = Inr filePath \<longrightarrow>
            (convertToJpeg e w1 filePath True = (Inr (Some buff), w2) \<longrightarrow>
               doWadoRs e w req = (Inr \<lparr>contentType = ''image/jpeg'', buffer = buff\<rparr>, w2))
            \<and> (convertToJpeg e w1 filePath True = (Inr None, w2) \<longrightarrow>
               doWadoRs e w req = (Inl (Error ''Failed to create thumbnail''), w2)))
         \<and> (doWadoRs e w req = (Inr resp, w') \<longrightarrow>
               contentType resp = ''image/jpeg''
               \<and> (\<exists>c w1 filePath. checkCache e w req = Inr c \<and> ensureFetched e w req c = (None, w1)
                     \<and> thumbnailPath e req c = Inr filePath
                     \<and> convertToJpeg e w1 filePath True = (Inr (Some (buffer resp)), w')))"
proof (intro conjI impI)
  assume h: "checkCache e w req = Inr c \<and> ensureFetched e w req c = (None, w1)
              \<and> thumbnailPath e req c = Inr filePath"
  then have d: "doWadoRs e w req = thumbnailBranch e w1 req c"
    using assms by (simp add: doWadoRs_thumbnail)
  { assume "convertToJpeg e w1 filePath True = (Inr (Some buff), w2)"
    with h d show "doWadoRs e w req = (Inr \<lparr>contentType = ''image/jpeg'', buffer = buff\<rparr>, w2)"
      by (simp add: thumbnailBranch_def) }
  { assume "convertToJpeg e w1 filePath True = (Inr None, w2)"
    with h d show "doWadoRs e w req = (Inl (Error ''Failed to create thumbnail''), w2)"
      by (simp add: thumbnailBranch_def) }
next
  assume r: "doWadoRs e w req = (Inr resp, w')"
  then obtain c where c: "checkCache e w req = Inr c"
    by (cases "checkCache e w req") (auto simp: doWadoRs_def serve_def)
  obtain r1 w1 where f: "ensureFetched e w req c = (r1, w1)" by force
  with r c have r1: "r1 = None"
    by (cases r1) (auto simp: doWadoRs_def serve_def)
  from r c f r1 assms have t: "thumbnailBranch e w1 req c = (Inr resp, w')"
    by (simp add: doWadoRs_def serve_def)
  from thumbnailBranch_Inr[OF t] show "contentType resp = ''image/jpeg''" by blast
  from thumbnailBranch_Inr[OF t] c f r1
  show "\<exists>c w1 filePath. checkCache e w req = Inr c \<and> ensureFetched e w req c = (None, w1)
                     \<and> thumbnailPath e req c = Inr filePath
                     \<and> convertToJpeg e w1 filePath True = (Inr (Some (buffer resp)), w')"
    by blast
qed

lemma checkCache_S2_I1:
  "checkCache env0 worldS2 (thumbnailOf (requestInstance ''S2'' ''I1'')) =
     Inr \<lparr>useCache = True, foundInstances = [], isDir = False\<rparr>"
  unfolding checkCache_def
  by (simp add: scenario_defs path_defs)

lemma convertToJpeg_nothing_written:
  "convertToJpeg env0 worldS2 ''data/S2/I1'' True =
     (Inr None, worldS2\<lparr>executed := [[''+oj'', ''+Jq'', ''10'', ''data/S2/I1'', ''data/S2/I1.jpg'']]\<rparr>)"
  unfolding convertToJpeg_def
  by (simp add: execFile_def firstArgs_def probeJpeg_def scenario_defs path_defs)

lemma convertToJpeg_written:
  "convertToJpeg (env0\<lparr>dcmj2pnm := tool True True\<rparr>) worldS2 ''data/S2/I1'' True =
     (Inr (Some ''JPEG''),
      worldS2\<lparr>disk := (disk worldS2)(''data/S2/I1.jpg'' \<mapsto> File ''JPEG''),
              executed := [[''+oj'', ''+Jq'', ''10'', ''data/S2/I1'', ''data/S2/I1.jpg'']]\<rparr>)"
  unfolding convertToJpeg_def
  by (simp add: execFile_def firstArgs_def probeJpeg_def scenario_defs path_defs)



text \<open>
  The thumbnail of instance \<^verbatim>\<open>I1\<close> of \<^verbatim>\<open>S2\<close>: with a tool that writes no file the request
  fails, with a tool that writes \<^verbatim>\<open>data/S2/I1.jpg\<close> the response is that file.
\<close>

theorem thumbnail_short_circuit_witness:
  "dataFormat (thumbnailOf (requestInstance ''S2'' ''I1'')) = Some thumbnail
   \<and> fst (doWadoRs env0 worldS2 (thumbnailOf (requestInstance ''S2'' ''I1'')))
       = Inl (Error ''Failed to create thumbnail'')
   \<and> fst (doWadoRs (env0\<lparr>dcmj2pnm := tool True True\<rparr>) worldS2 (thumbnailOf (requestInstance ''S2'' ''I1'')))
       = Inr \<lparr>contentType = ''image/jpeg'', buffer = ''JPEG''\<rparr>"
proof -
  let ?req = "thumbnailOf (requestInstance ''S2'' ''I1'')"
  let ?c = "\<lparr>useCache = True, foundInstances = [], isDir = False\<rparr>"
  let ?e = "env0\<lparr>dcmj2pnm := tool True True\<rparr>"
  have t: "dataFormat ?req = Some thumbnail"
    by (simp add: scenario_defs)
  have c2: "checkCache ?e worldS2 ?req = Inr ?c"
    unfolding checkCache_def by (simp add: scenario_defs path_defs)
  have f1: "ensureFetched env0 worldS2 ?req ?c = (None, worldS2)"
    by (simp add: ensureFetched_def)
  have f2: "ensureFetched ?e worldS2 ?req ?c = (None, worldS2)"
    by (simp add: ensureFetched_def)
  have p1: "thumbnailPath env0 ?req ?c = Inr ''data/S2/I1''"
    by (simp add: thumbnailPath_def scenario_defs path_defs)
  have p2: "thumbnailPath ?e ?req ?c = Inr ''data/S2/I1''"
    by (simp add: thumbnailPath_def scenario_defs path_defs)
  have a: "doWadoRs env0 worldS2 ?req = (Inl (Error ''Failed to create thumbnail''),
      worldS2\<lparr>executed := [[''+oj'', ''+Jq'', ''10'', ''data/S2/I1'', ''data/S2/I1.jpg'']]\<rparr>)"
    using thumbnail_short_circuit [OF t, THEN conjunct1, THEN mp, THEN conjunct2, THEN mp,
        OF conjI [OF checkCache_S2_I1 conjI [OF f1 p1]] convertToJpeg_nothing_written] .
  have b: "doWadoRs ?e worldS2 ?req = (Inr \<lparr>contentType = ''image/jpeg'', buffer = ''JPEG''\<rparr>,
      worldS2\<lparr>disk := (disk worldS2)(''data/S2/I1.jpg'' \<mapsto> File ''JPEG''),
              executed := [[''+oj'', ''+Jq'', ''10'', ''data/S2/I1'', ''data/S2/I1.jpg'']]\<rparr>)"
    using thumbnail_short_circuit [OF t, THEN conjunct1, THEN mp, THEN conjunct1, THEN mp,
        OF conjI [OF c2 conjI [OF f2 p2]] convertToJpeg_written] .
  show ?thesis
    unfolding a b using t by simp
qed

lemma ensureFetched_hit: "useCache c \<Longrightarrow> ensureFetched e w req c = (None, w)"
  by (simp add: ensureFetched_def)

text \<open>
  Claim C10. In a directory-scope thumbnail request the renderer is run on
  \<^verbatim>\<open>path.join(pathname, foundInstances[0])\<close>: the first expected instance, whatever the
  directory holds. With no expected instance, \<^verbatim>\<open>foundInstances[0]\<close> is \<^verbatim>\<open>undefined\<close> and the
  request ends in the \<^verbatim>\<open>TypeError\<close> of \<^verbatim>\<open>path.join\<close>: the world is as it was, so the
  renderer did not run, and the error is not \<^verbatim>\<open>Error('Failed to create thumbnail')\<close>.
\<close>

theorem thumbnail_target_first_expected:
  assumes "dataFormat req = Some thumbnail" and "checkCache e w req = Inr c" and "isDir c"
  shows "(foundInstances c = [] \<longrightarrow>
            doWadoRs e w req = (Inl TypeError, w)
            \<and> executed (snd (doWadoRs e w req)) = executed w
            \<and> fst (doWadoRs e w req) \<noteq> Inl (Error ''Failed to create thumbnail''))
         \<and> (foundInstances c = i # rest \<and> ensureFetched e w req c = (None, w1) \<longrightarrow>
            doWadoRs e w req =
              (case convertToJpeg e w1 (pathJoin (pathname e req) i) True of
                 (Inl err, w2) \<Rightarrow> (Inl err, w2)
               | (Inr (Some buff), w2) \<Rightarrow> (Inr \<lparr>contentType = ''image/jpeg'', buffer = buff\<rparr>, w2)
               | (Inr None, w2) \<Rightarrow> (Inl (Error ''Failed to create thumbnail''), w2)))"
proof (intro conjI impI)
  assume n: "foundInstances c = []"
  with checkCache_dir[OF assms(2,3)] have "useCache c" by simp
  then have "ensureFetched e w req c = (None, w)" by (rule ensureFetched_hit)
  with assms have "doWadoRs e w req = thumbnailBranch e w req c"
    by (simp add: doWadoRs_thumbnail)
  with n assms(3) show d: "doWadoRs e w req = (Inl TypeError, w)"
    by (simp add: thumbnailBranch_def thumbnailPath_def)
  then show "executed (snd (doWadoRs e w req)) = executed w" by simp
  from d show "fst (doWadoRs e w req) \<noteq> Inl (Error ''Failed to create thumbnail'')" by simp
next
  assume h: "foundInstances c = i # rest \<and> ensureFetched e w req c = (None, w1)"
  with assms have "doWadoRs e w req = thumbnailBranch e w1 req c"
    by (simp add: doWadoRs_thumbnail)
  with h assms(3) show "doWadoRs e w req =
              (case convertToJpeg e w1 (pathJoin (pathname e req) i) True of
                 (Inl err, w2) \<Rightarrow> (Inl err, w2)
               | (Inr (Some buff), w2) \<Rightarrow> (Inr \<lparr>contentType = ''image/jpeg'', buffer = buff\<rparr>, w2)
               | (Inr None, w2) \<Rightarrow> (Inl (Error ''Failed to create thumbnail''), w2))"
    by (simp add: thumbnailBranch_def thumbnailPath_def)
qed

lemma convertToJpeg_S3_a:
  "convertToJpeg (env0\<lparr>dcmj2pnm := tool True True\<rparr>) worldS3 ''data/S3/a'' True =
     (Inr (Some ''JPEG''),
      worldS3\<lparr>disk := (disk worldS3)(''data/S3/a.jpg'' \<mapsto> File ''JPEG''),
              executed := [[''+oj'', ''+Jq'', ''10'', ''data/S3/a'', ''data/S3/a.jpg'']]\<rparr>)"
  unfolding convertToJpeg_def
  by (simp add: execFile_def firstArgs_def probeJpeg_def scenario_defs path_defs)

text \<open>
  The directory of \<^verbatim>\<open>S3\<close> starts with \<^verbatim>\<open>x\<close>; the thumbnail is rendered from \<^verbatim>\<open>data/S3/a\<close>, the
  first expected instance. For \<^verbatim>\<open>S0\<close> nothing is expected, and the request ends in a
  \<^verbatim>\<open>TypeError\<close>.
\<close>

theorem thumbnail_target_first_expected_witness:
  "readdir (disk worldS3) (pathname env0 (thumbnailOf (request ''S3''))) = Inr [''x'', ''a'', ''b'', ''c'']
   \<and> checkCache (env0\<lparr>dcmj2pnm := tool True True\<rparr>) worldS3 (thumbnailOf (request ''S3''))
       = Inr \<lparr>useCache = True, foundInstances = [''a'', ''b'', ''c''], isDir = True\<rparr>
   \<and> doWadoRs (env0\<lparr>dcmj2pnm := tool True True\<rparr>) worldS3 (thumbnailOf (request ''S3'')) =
       (Inr \<lparr>contentType = ''image/jpeg'', buffer = ''JPEG''\<rparr>,
        worldS3\<lparr>disk := (disk worldS3)(''data/S3/a.jpg'' \<mapsto> File ''JPEG''),
                executed := [[''+oj'', ''+Jq'', ''10'', ''data/S3/a'', ''data/S3/a.jpg'']]\<rparr>)
   \<and> checkCache env0 worldS3 (thumbnailOf (request ''S0''))
       = Inr \<lparr>useCache = True, foundInstances = [], isDir = True\<rparr>
   \<and> doWadoRs env0 worldS3 (thumbnailOf (request ''S0'')) = (Inl TypeError, worldS3)"
proof -
  let ?e = "env0\<lparr>dcmj2pnm := tool True True\<rparr>"
  let ?c = "\<lparr>useCache = True, foundInstances = [''a'', ''b'', ''c''], isDir = True\<rparr>"
  let ?cEmpty = "\<lparr>useCache = True, foundInstances = [], isDir = True\<rparr>"
  have l: "readdir (disk worldS3) (pathname env0 (thumbnailOf (request ''S3''))) = Inr [''x'', ''a'', ''b'', ''c'']"
    by (simp add: scenario_defs path_defs)
  have t: "dataFormat (thumbnailOf (request ''S3'')) = Some thumbnail"
    and t0: "dataFormat (thumbnailOf (request ''S0'')) = Some thumbnail"
    by (simp_all add: scenario_defs)
  have c: "checkCache ?e worldS3 (thumbnailOf (request ''S3'')) = Inr ?c"
    unfolding checkCache_def by (simp add: scenario_defs path_defs)
  have c0: "checkCache env0 worldS3 (thumbnailOf (request ''S0'')) = Inr ?cEmpty"
    unfolding checkCache_def by (simp add: scenario_defs path_defs)
  have d: "isDir ?c" and d0: "isDir ?cEmpty" by simp_all
  have f: "foundInstances ?c = ''a'' # [''b'', ''c'']
      \<and> ensureFetched ?e worldS3 (thumbnailOf (request ''S3'')) ?c = (None, worldS3)"
    by (simp add: ensureFetched_def)
  have p: "pathJoin (pathname ?e (thumbnailOf (request ''S3''))) ''a'' = ''data/S3/a''"
    by (simp add: scenario_defs path_defs)
  have a: "doWadoRs ?e worldS3 (thumbnailOf (request ''S3'')) =
       (Inr \<lparr>contentType = ''image/jpeg'', buffer = ''JPEG''\<rparr>,
        worldS3\<lparr>disk := (disk worldS3)(''data/S3/a.jpg'' \<mapsto> File ''JPEG''),
                executed := [[''+oj'', ''+Jq'', ''10'', ''data/S3/a'', ''data/S3/a.jpg'']]\<rparr>)"
    using thumbnail_target_first_expected [OF t c d, THEN conjunct2, THEN mp, OF f]
    unfolding p convertToJpeg_S3_a by simp
  have b: "doWadoRs env0 worldS3 (thumbnailOf (request ''S0'')) = (Inl TypeError, worldS3)"
    using thumbnail_target_first_expected [OF t0 c0 d0, THEN conjunct1, THEN mp, THEN conjunct1]
    by simp
  from l c a c0 b show ?thesis by blast
qed

subsection \<open>The JPEG renderer\<close>

lemma convertToJpeg_first_ok:
  "dcmj2pnm e (firstArgs filepath t) (disk w) = (None, fs1) \<Longrightarrow>
   convertToJpeg e w filepath t =
     (probeJpeg fs1 filepath, w\<lparr>disk := fs1, executed := executed w @ [firstArgs filepath t]\<rparr>)"
  by (simp add: convertToJpeg_def execFile_def)

lemma convertToJpeg_retry_ok:
  "dcmj2pnm e (firstArgs filepath t) (disk w) = (Some e1, fs1) \<Longrightarrow>
   dcmj2pnm e (retryArgs filepath t) fs1 = (None, fs2) \<Longrightarrow>
   convertToJpeg e w filepath t =
     (probeJpeg fs2 filepath,
      w\<lparr>disk := fs2, executed := executed w @ [firstArgs filepath t, retryArgs filepath t]\<rparr>)"
  by (simp add: convertToJpeg_def execFile_def)

lemma convertToJpeg_both_fail:
  "dcmj2pnm e (firstArgs filepath t) (disk w) = (Some e1, fs1) \<Longrightarrow>
   dcmj2pnm e (retryArgs filepath t) fs1 = (Some e2, fs2) \<Longrightarrow>
   convertToJpeg e w filepath t =
     (Inl e2,
      w\<lparr>disk := fs2, executed := executed w @ [firstArgs filepath t, retryArgs filepath t]\<rparr>)"
  by (simp add: convertToJpeg_def execFile_def)

lemma probeJpeg_first: "fs (filepath @ ''.jpg'') = Some (File b) \<Longrightarrow> probeJpeg fs filepath = Inr (Some b)"
  by (simp add: probeJpeg_def fileExists_def readFile_def)

lemma probeJpeg_second:
  "fs (filepath @ ''.jpg'') = None \<Longrightarrow> fs (filepath @ ''.0.jpg'') = Some (File b) \<Longrightarrow>
   probeJpeg fs filepath = Inr (Some b)"
  by (simp add: probeJpeg_def fileExists_def readFile_def)

lemma probeJpeg_absent:
  "fs (filepath @ ''.jpg'') = None \<Longrightarrow> fs (filepath @ ''.0.jpg'') = None \<Longrightarrow>
   probeJpeg fs filepath = Inr None"
  by (simp add: probeJpeg_def fileExists_def)

text \<open>
  Claim C6, as the code has it. The first run of the tool has the output argument
  \<^verbatim>\<open><path>.jpg\<close>. When it fails, the tool is run once more, with \<^verbatim>\<open>+Fa\<close> and with the
  input path itself as the output argument, from which the tool names its frames
  \<^verbatim>\<open><path>.0.jpg\<close>, ...; there is no third run. When the second run fails as well, its error
  is the result. After a run that succeeded, \<^verbatim>\<open><path>.jpg\<close> is probed, then \<^verbatim>\<open><path>.0.jpg\<close>:
  the result is the bytes of the first that exists, and \<^verbatim>\<open>undefined\<close>, not an error, when
  neither exists. So a tool that fails on the first run and writes \<^verbatim>\<open><path>.0.jpg\<close> on the
  second yields those bytes.
\<close>

theorem convertToJpeg_retry_policy:
  "firstArgs filepath t = [''+oj'', ''+Jq'', (if t then ''10'' else ''100''), filepath, filepath @ ''.jpg'']
   \<and> retryArgs filepath t = [''+oj'', ''+Jq'', (if t then ''10'' else ''100''), ''+Fa'', filepath, filepath]
   \<and> (dcmj2pnm e (firstArgs filepath t) (disk w) = (None, fs1) \<longrightarrow>
        convertToJpeg e w filepath t =
          (probeJpeg fs1 filepath, w\<lparr>disk := fs1, executed := executed w @ [firstArgs filepath t]\<rparr>))
   \<and> (dcmj2pnm e (firstArgs filepath t) (disk w) = (Some e1, fs1)
        \<and> dcmj2pnm e (retryArgs filepath t) fs1 = (None, fs2) \<longrightarrow>
        convertToJpeg e w filepath t =
          (probeJpeg fs2 filepath,
           w\<lparr>disk := fs2, executed := executed w @ [firstArgs filepath t, retryArgs filepath t]\<rparr>))
   \<and> (dcmj2pnm e (firstArgs filepath t) (disk w) = (Some e1, fs1)
        \<and> dcmj2pnm e (retryArgs filepath t) fs1 = (Some e2, fs2) \<longrightarrow>
        convertToJpeg e w filepath t =
          (Inl e2,
           w\<lparr>disk := fs2, executed := executed w @ [firstArgs filepath t, retryArgs filepath t]\<rparr>))
   \<and> (fs (filepath @ ''.jpg'') = Some (File b) \<longrightarrow> probeJpeg fs filepath = Inr (Some b))
   \<and> (fs (filepath @ ''.jpg'') = None \<and> fs (filepath @ ''.0.jpg'') = Some (File b) \<longrightarrow>
        probeJpeg fs filepath = Inr (Some b))
   \<and> (fs (filepath @ ''.jpg'') = None \<and> fs (filepath @ ''.0.jpg'') = None \<longrightarrow>
        probeJpeg fs filepath = Inr None)"
proof (intro conjI impI)
  show "firstArgs filepath t = [''+oj'', ''+Jq'', (if t then ''10'' else ''100''), filepath, filepath @ ''.jpg'']"
    by (simp add: firstArgs_def)
  show "retryArgs filepath t = [''+oj'', ''+Jq'', (if t then ''10'' else ''100''), ''+Fa'', filepath, filepath]"
    by (simp add: retryArgs_def)
next
  assume "dcmj2pnm e (firstArgs filepath t) (disk w) = (None, fs1)"
  then show "convertToJpeg e w filepath t =
          (probeJpeg fs1 filepath, w\<lparr>disk := fs1, executed := executed w @ [firstArgs filepath t]\<rparr>)"
    by (rule convertToJpeg_first_ok)
next
  assume "dcmj2pnm e (firstArgs filepath t) (disk w) = (Some e1, fs1)
        \<and> dcmj2pnm e (retryArgs filepath t) fs1 = (None, fs2)"
  then show "convertToJpeg e w filepath t =
          (probeJpeg fs2 filepath,
           w\<lparr>disk := fs2, executed := executed w @ [firstArgs filepath t, retryArgs filepath t]\<rparr>)"
    by (simp add: convertToJpeg_retry_ok)
next
  assume "dcmj2pnm e (firstArgs filepath t) (disk w) = (Some e1, fs1)
        \<and> dcmj2pnm e (retryArgs filepath t) fs1 = (Some e2, fs2)"
  then show "convertToJpeg e w filepath t =
          (Inl e2,
           w\<lparr>disk := fs2, executed := executed w @ [firstArgs filepath t, retryArgs filepath t]\<rparr>)"
    by (simp add: convertToJpeg_both_fail)
next
  assume "fs (filepath @ ''.jpg'') = Some (File b)"
  then show "probeJpeg fs filepath = Inr (Some b)" by (rule probeJpeg_first)
next
  assume "fs (filepath @ ''.jpg'') = None \<and> fs (filepath @ ''.0.jpg'') = Some (File b)"
  then show "probeJpeg fs filepath = Inr (Some b)" by (simp add: probeJpeg_second)
next
  assume "fs (filepath @ ''.jpg'') = None \<and> fs (filepath @ ''.0.jpg'') = None"
  then show "probeJpeg fs filepath = Inr None" by (simp add: probeJpeg_absent)
qed

lemma tool_first_fails:
  "dcmj2pnm (env0\<lparr>dcmj2pnm := tool False ok\<rparr>) (firstArgs ''data/S2/I1'' False) (disk worldS2)
     = (Some (Error ''single frame failed''), disk worldS2)"
  by (simp add: firstArgs_def tool_def)

lemma tool_retry_ok:
  "dcmj2pnm (env0\<lparr>dcmj2pnm := tool False True\<rparr>) (retryArgs ''data/S2/I1'' False) (disk worldS2)
     = (None, (disk worldS2)(''data/S2/I1.0.jpg'' \<mapsto> File ''JPEG frame 0''))"
  by (simp add: retryArgs_def tool_def)

lemma tool_retry_fails:
  "dcmj2pnm (env0\<lparr>dcmj2pnm := tool False False\<rparr>) (retryArgs ''data/S2/I1'' False) (disk worldS2)
     = (Some (Error ''all frames failed''), disk worldS2)"
  by (simp add: retryArgs_def tool_def)

text \<open>
  A tool that fails without \<^verbatim>\<open>+Fa\<close>: with a working all-frames mode the result is frame 0,
  after two runs; with a failing one the result is the second error, after two runs. A
  tool that works at once: the result is \<^verbatim>\<open>data/S2/I1.jpg\<close>, after one run. A tool that runs
  without error and writes nothing: the result is \<^verbatim>\<open>undefined\<close>, after one run.
\<close>

theorem convertToJpeg_retry_policy_witness:
  "convertToJpeg (env0\<lparr>dcmj2pnm := tool False True\<rparr>) worldS2 ''data/S2/I1'' False =
     (Inr (Some ''JPEG frame 0''),
      worldS2\<lparr>disk := (disk worldS2)(''data/S2/I1.0.jpg'' \<mapsto> File ''JPEG frame 0''),
              executed := [[''+oj'', ''+Jq'', ''100'', ''data/S2/I1'', ''data/S2/I1.jpg''],
                           [''+oj'', ''+Jq'', ''100'', ''+Fa'', ''data/S2/I1'', ''data/S2/I1'']]\<rparr>)
   \<and> convertToJpeg (env0\<lparr>dcmj2pnm := tool False False\<rparr>) worldS2 ''data/S2/I1'' False =
     (Inl (Error ''all frames failed''),
      worldS2\<lparr>disk := disk worldS2,
              executed := [[''+oj'', ''+Jq'', ''100'', ''data/S2/I1'', ''data/S2/I1.jpg''],
                           [''+oj'', ''+Jq'', ''100'', ''+Fa'', ''data/S2/I1'', ''data/S2/I1'']]\<rparr>)
   \<and> convertToJpeg (env0\<lparr>dcmj2pnm := tool True True\<rparr>) worldS2 ''data/S2/I1'' False =
     (Inr (Some ''JPEG''),
      worldS2\<lparr>disk := (disk worldS2)(''data/S2/I1.jpg'' \<mapsto> File ''JPEG''),
              executed := [[''+oj'', ''+Jq'', ''100'', ''data/S2/I1'', ''data/S2/I1.jpg'']]\<rparr>)
   \<and> convertToJpeg env0 worldS2 ''data/S2/I1'' False =
     (Inr None,
      worldS2\<lparr>disk := disk worldS2,
              executed := [[''+oj'', ''+Jq'', ''100'', ''data/S2/I1'', ''data/S2/I1.jpg'']]\<rparr>)"
proof -
  let ?fs = "(disk worldS2)(''data/S2/I1.0.jpg'' \<mapsto> File ''JPEG frame 0'')"
  let ?fj = "(disk worldS2)(''data/S2/I1.jpg'' \<mapsto> File ''JPEG'')"
  note p = convertToJpeg_retry_policy [where filepath = "''data/S2/I1''" and t = False and w = worldS2]
  have x: "executed worldS2 = []" by (simp add: worldS2_def)
  have n1: "?fs (''data/S2/I1'' @ ''.jpg'') = None \<and> ?fs (''data/S2/I1'' @ ''.0.jpg'') = Some (File ''JPEG frame 0'')"
    by (simp add: worldS2_def)
  have pr: "probeJpeg ?fs ''data/S2/I1'' = Inr (Some ''JPEG frame 0'')"
    using convertToJpeg_retry_policy [where filepath = "''data/S2/I1''" and fs = ?fs, THEN conjunct2, THEN conjunct2, THEN conjunct2, THEN conjunct2, THEN conjunct2,
             THEN conjunct2, THEN conjunct1, THEN mp, OF n1] .
  have a: "convertToJpeg (env0\<lparr>dcmj2pnm := tool False True\<rparr>) worldS2 ''data/S2/I1'' False =
     (probeJpeg ?fs ''data/S2/I1'',
      worldS2\<lparr>disk := ?fs,
              executed := executed worldS2 @ [firstArgs ''data/S2/I1'' False, retryArgs ''data/S2/I1'' False]\<rparr>)"
    using p [THEN conjunct2, THEN conjunct2, THEN conjunct2, THEN conjunct1, THEN mp,
             OF conjI [OF tool_first_fails tool_retry_ok]] .
  have b: "convertToJpeg (env0\<lparr>dcmj2pnm := tool False False\<rparr>) worldS2 ''data/S2/I1'' False =
     (Inl (Error ''all frames failed''),
      worldS2\<lparr>disk := disk worldS2,
              executed := executed worldS2 @ [firstArgs ''data/S2/I1'' False, retryArgs ''data/S2/I1'' False]\<rparr>)"
    using p [THEN conjunct2, THEN conjunct2, THEN conjunct2, THEN conjunct2, THEN conjunct1, THEN mp,
             OF conjI [OF tool_first_fails tool_retry_fails]] .
  have t1: "dcmj2pnm (env0\<lparr>dcmj2pnm := tool True True\<rparr>) (firstArgs ''data/S2/I1'' False) (disk worldS2)
     = (None, ?fj)"
    by (simp add: firstArgs_def tool_def)
  have n2: "?fj (''data/S2/I1'' @ ''.jpg'') = Some (File ''JPEG'')"
    by simp
  have pj: "probeJpeg ?fj ''data/S2/I1'' = Inr (Some ''JPEG'')"
    using convertToJpeg_retry_policy [where filepath = "''data/S2/I1''" and fs = ?fj, THEN conjunct2, THEN conjunct2, THEN conjunct2, THEN conjunct2, THEN conjunct2,
             THEN conjunct1, THEN mp, OF n2] .
  have c: "convertToJpeg (env0\<lparr>dcmj2pnm := tool True True\<rparr>) worldS2 ''data/S2/I1'' False =
     (probeJpeg ?fj ''data/S2/I1'',
      worldS2\<lparr>disk := ?fj, executed := executed worldS2 @ [firstArgs ''data/S2/I1'' False]\<rparr>)"
    using p [THEN conjunct2, THEN conjunct2, THEN conjunct1, THEN mp, OF t1] .
  have t0: "dcmj2pnm env0 (firstArgs ''data/S2/I1'' False) (disk worldS2) = (None, disk worldS2)"
    by (simp add: env0_def)
  have n0: "disk worldS2 (''data/S2/I1'' @ ''.jpg'') = None \<and> disk worldS2 (''data/S2/I1'' @ ''.0.jpg'') = None"
    by (simp add: worldS2_def)
  have p0: "probeJpeg (disk worldS2) ''data/S2/I1'' = Inr None"
    using convertToJpeg_retry_policy [where filepath = "''data/S2/I1''" and fs = "disk worldS2", THEN conjunct2, THEN conjunct2, THEN conjunct2, THEN conjunct2, THEN conjunct2,
             THEN conjunct2, THEN conjunct2, THEN mp, OF n0] .
  have d: "convertToJpeg env0 worldS2 ''data/S2/I1'' False =
     (probeJpeg (disk worldS2) ''data/S2/I1'',
      worldS2\<lparr>disk := disk worldS2, executed := executed worldS2 @ [firstArgs ''data/S2/I1'' False]\<rparr>)"
    using p [THEN conjunct2, THEN conjunct2, THEN conjunct1, THEN mp, OF t0] .
  show ?thesis
    unfolding a b c d pr pj p0 x by (simp add: firstArgs_def retryArgs_def)
qed


text \<open>
  Claim C6 as stated has the retry target the same output path as the first run. It does
  not: the first run is told to write \<^verbatim>\<open>data/S2/I1.jpg\<close>, the retry \<^verbatim>\<open>data/S2/I1\<close>.
\<close>

theorem retry_output_path_counterexample:
  "executed (snd (convertToJpeg (env0\<lparr>dcmj2pnm := tool False True\<rparr>) worldS2 ''data/S2/I1'' False)) =
     [[''+oj'', ''+Jq'', ''100'', ''data/S2/I1'', ''data/S2/I1.jpg''],
      [''+oj'', ''+Jq'', ''100'', ''+Fa'', ''data/S2/I1'', ''data/S2/I1'']]
   \<and> outputArg (executed (snd (convertToJpeg (env0\<lparr>dcmj2pnm := tool False True\<rparr>) worldS2 ''data/S2/I1'' False)) ! 1)
       \<noteq> outputArg (executed (snd (convertToJpeg (env0\<lparr>dcmj2pnm := tool False True\<rparr>) worldS2 ''data/S2/I1'' False)) ! 0)"
  unfolding convertToJpeg_retry_ok [OF tool_first_fails tool_retry_ok]
  by (simp add: firstArgs_def retryArgs_def outputArg_def worldS2_def)

subsection \<open>The object transcoder\<close>

lemma bufferFrom_Inr:
  "bufferFrom ab off len = Inr payload \<longleftrightarrow>
     off + len \<le> length ab \<and> payload = take len (drop off ab)"
  by (auto simp: bufferFrom_def)

lemma pixelDataOf_Inr:
  "pixelDataOf e data = Inr payload \<longleftrightarrow>
     (\<exists>dataset el. parseDicom e data = Inr dataset \<and> elements dataset ''x7fe00010'' = Some el
        \<and> dataOffset el + elLength el \<le> length (byteArray dataset)
        \<and> payload = take (elLength el) (drop (dataOffset el) (byteArray dataset)))"
  by (auto simp: pixelDataOf_def bufferFrom_Inr split: sum.splits option.splits)

lemma addFileToBuffer_pixel:
  assumes "fmt = Some pixelData \<or> fmt = Some bulkData"
  shows "addFileToBuffer e w pn fn fmt =
    (case readFile (disk (compress e w (pathJoin pn fn) pn fmt)) (pathJoin pn fn) of
       Inl err \<Rightarrow> Inl err
     | Inr data \<Rightarrow>
         (case pixelDataOf e data of
            Inl err \<Rightarrow> Inl err
          | Inr payload \<Rightarrow>
              Inr (''Content-Type:application/octet-stream;'' @ [CHR 0x0D, CHR 0x0A]
                   @ [CHR 0x0D, CHR 0x0A] @ payload @ [CHR 0x0D, CHR 0x0A])),
     compress e w (pathJoin pn fn) pn fmt)"
  using assms
  by (auto simp: addFileToBuffer_def Let_def wrapPart_def term_crlf_def split: sum.splits)

text \<open>
  Claim C3. For the data formats \<^verbatim>\<open>pixelData\<close> and \<^verbatim>\<open>bulkData\<close>, every part that
  \<^verbatim>\<open>addFileToBuffer\<close> returns is the header line \<^verbatim>\<open>Content-Type:application/octet-stream;\<close>,
  a blank line, the payload and a line end, where the payload has the recorded length of
  the Pixel Data element \<^verbatim>\<open>x7fe00010\<close> and its \<open>k\<close>-th byte is the byte at the recorded data
  offset plus \<open>k\<close> of the parsed byte array. And it does return that part whenever the file
  can be read and parsed, the element is there and its range lies within the byte array.
\<close>

theorem pixelData_exact_subrange:
  assumes "fmt = Some pixelData \<or> fmt = Some bulkData"
  shows "(addFileToBuffer e w pn fn fmt = (Inr part, w') \<longrightarrow>
            (\<exists>data dataset el payload.
                readFile (disk w') (pathJoin pn fn) = Inr data
              \<and> parseDicom e data = Inr dataset
              \<and> elements dataset ''x7fe00010'' = Some el
              \<and> part = ''Content-Type:application/octet-stream;'' @ [CHR 0x0D, CHR 0x0A]
                         @ [CHR 0x0D, CHR 0x0A] @ payload @ [CHR 0x0D, CHR 0x0A]
              \<and> length payload = elLength el
              \<and> (\<forall>k < elLength el. payload ! k = byteArray dataset ! (dataOffset el + k))))
         \<and> (readFile (disk (compress e w (pathJoin pn fn) pn fmt)) (pathJoin pn fn) = Inr data
              \<and> parseDicom e data = Inr dataset
              \<and> elements dataset ''x7fe00010'' = Some el
              \<and> dataOffset el + elLength el \<le> length (byteArray dataset) \<longrightarrow>
            addFileToBuffer e w pn fn fmt =
              (Inr (''Content-Type:application/octet-stream;'' @ [CHR 0x0D, CHR 0x0A]
                    @ [CHR 0x0D, CHR 0x0A]
                    @ take (elLength el) (drop (dataOffset el) (byteArray dataset))
                    @ [CHR 0x0D, CHR 0x0A]),
               compress e w (pathJoin pn fn) pn fmt))"
proof (intro conjI impI)
  assume a: "addFileToBuffer e w pn fn fmt = (Inr part, w')"
  let ?w1 = "compress e w (pathJoin pn fn) pn fmt"
  from a have w': "w' = ?w1"
    by (simp add: addFileToBuffer_pixel[OF assms])
  from a obtain data where d: "readFile (disk ?w1) (pathJoin pn fn) = Inr data"
    by (cases "readFile (disk ?w1) (pathJoin pn fn)") (auto simp: addFileToBuffer_pixel[OF assms])
  from a d obtain payload where p: "pixelDataOf e data = Inr payload"
    and part: "part = ''Content-Type:application/octet-stream;'' @ [CHR 0x0D, CHR 0x0A]
                         @ [CHR 0x0D, CHR 0x0A] @ payload @ [CHR 0x0D, CHR 0x0A]"
    by (cases "pixelDataOf e data") (auto simp: addFileToBuffer_pixel[OF assms])
  from p obtain dataset el where ds: "parseDicom e data = Inr dataset"
    and el: "elements dataset ''x7fe00010'' = Some el"
    and bound: "dataOffset el + elLength el \<le> length (byteArray dataset)"
    and payload: "payload = take (elLength el) (drop (dataOffset el) (byteArray dataset))"
    unfolding pixelDataOf_Inr by blast
  from bound payload have len: "length payload = elLength el" by simp
  from bound payload have nth: "\<forall>k < elLength el. payload ! k = byteArray dataset ! (dataOffset el + k)"
    by simp
  from d w' ds el part len nth
  show "\<exists>data dataset el payload.
                readFile (disk w') (pathJoin pn fn) = Inr data
              \<and> parseDicom e data = Inr dataset
              \<and> elements dataset ''x7fe00010'' = Some el
              \<and> part = ''Content-Type:application/octet-stream;'' @ [CHR 0x0D, CHR 0x0A]
                         @ [CHR 0x0D, CHR 0x0A] @ payload @ [CHR 0x0D, CHR 0x0A]
              \<and> length payload = elLength el
              \<and> (\<forall>k < elLength el. payload ! k = byteArray dataset ! (dataOffset el + k))"
    by blast
next
  assume h: "readFile (disk (compress e w (pathJoin pn fn) pn fmt)) (pathJoin pn fn) = Inr data
              \<and> parseDicom e data = Inr dataset
              \<and> elements dataset ''x7fe00010'' = Some el
              \<and> dataOffset el + elLength el \<le> length (byteArray dataset)"
  then have "pixelDataOf e data = Inr (take (elLength el) (drop (dataOffset el) (byteArray dataset)))"
    unfolding pixelDataOf_Inr by blast
  with h show "addFileToBuffer e w pn fn fmt =
              (Inr (''Content-Type:application/octet-stream;'' @ [CHR 0x0D, CHR 0x0A]
                    @ [CHR 0x0D, CHR 0x0A]
                    @ take (elLength el) (drop (dataOffset el) (byteArray dataset))
                    @ [CHR 0x0D, CHR 0x0A]),
               compress e w (pathJoin pn fn) pn fmt)"
    by (simp add: addFileToBuffer_pixel[OF assms])
qed

text \<open>
  The object \<^verbatim>\<open>DICMabcXYZ\<close> with its Pixel Data at offset 4 and of length 3: the payload is
  \<^verbatim>\<open>abc\<close>.
\<close>

theorem pixelData_exact_subrange_witness:
  "addFileToBuffer (env0\<lparr>parseDicom := parserAt 4 3\<rparr>) worldPix ''data/S5'' ''p'' (Some pixelData) =
     (Inr (''Content-Type:application/octet-stream;'' @ [CHR 0x0D, CHR 0x0A] @ [CHR 0x0D, CHR 0x0A]
           @ ''abc'' @ [CHR 0x0D, CHR 0x0A]), worldPix)"
proof -
  let ?e = "env0\<lparr>parseDicom := parserAt 4 3\<rparr>"
  let ?ds = "\<lparr>elements = [''x7fe00010'' \<mapsto> \<lparr>dataOffset = 4, elLength = 3\<rparr>], byteArray = ''DICMabcXYZ''\<rparr>"
  have c: "compress ?e worldPix (pathJoin ''data/S5'' ''p'') ''data/S5'' (Some pixelData) = worldPix"
    by (simp add: compress_def env0_def)
  have h: "readFile (disk (compress ?e worldPix (pathJoin ''data/S5'' ''p'') ''data/S5'' (Some pixelData)))
             (pathJoin ''data/S5'' ''p'') = Inr ''DICMabcXYZ''
         \<and> parseDicom ?e ''DICMabcXYZ'' = Inr ?ds
         \<and> elements ?ds ''x7fe00010'' = Some \<lparr>dataOffset = 4, elLength = 3\<rparr>
         \<and> dataOffset \<lparr>dataOffset = 4, elLength = 3\<rparr> + elLength \<lparr>dataOffset = 4, elLength = 3\<rparr>
             \<le> length (byteArray ?ds)"
    unfolding c by (simp add: worldPix_def parserAt_def path_defs)
  have "Some pixelData = Some pixelData \<or> Some pixelData = Some bulkData" by simp
  from pixelData_exact_subrange [OF this, THEN conjunct2, THEN mp, OF h]
  show ?thesis unfolding c by simp
qed

lemma addFileToBuffer_rendered_absent:
  assumes "readFile (disk (compress e w (pathJoin pn fn) pn (Some rendered))) (pathJoin pn fn) = Inr data"
    and "convertToJpeg e (compress e w (pathJoin pn fn) pn (Some rendered)) (pathJoin pn fn) False
           = (Inr None, w2)"
  shows "addFileToBuffer e w pn fn (Some rendered) = (Inl TypeError, w2)"
  using assms by (simp add: addFileToBuffer_def Let_def wrapPart_def)

lemma convertToJpeg_S3_absent:
  "disk w = disk worldS3 \<Longrightarrow> fn \<in> {''a'', ''b'', ''c''} \<Longrightarrow>
   convertToJpeg env0 w (''data/S3/'' @ fn) False =
     (Inr None, w\<lparr>executed := executed w @ [[''+oj'', ''+Jq'', ''100'', ''data/S3/'' @ fn, ''data/S3/'' @ fn @ ''.jpg'']]\<rparr>)"
  unfolding convertToJpeg_def
  by (auto simp: execFile_def firstArgs_def probeJpeg_def scenario_defs path_defs)

lemma addFileToBuffer_S3_absent:
  assumes "disk w = disk worldS3" and "fn \<in> {''a'', ''b'', ''c''}"
  shows "addFileToBuffer env0 w ''data/S3'' fn (Some rendered) =
     (Inl TypeError,
      w\<lparr>executed := executed w @ [[''+oj'', ''+Jq'', ''100'', ''data/S3/'' @ fn, ''data/S3/'' @ fn @ ''.jpg'']]\<rparr>)"
proof -
  from assms(2) have p: "pathJoin ''data/S3'' fn = ''data/S3/'' @ fn" by (auto simp: pathJoin_def)
  have c: "compress env0 w (''data/S3/'' @ fn) ''data/S3'' (Some rendered) = w"
    by (simp add: compress_def env0_def)
  from assms obtain data where
    r: "readFile (disk (compress env0 w (pathJoin ''data/S3'' fn) ''data/S3'' (Some rendered)))
             (pathJoin ''data/S3'' fn) = Inr data"
    unfolding p c by (auto simp: readFile_def worldS3_def)
  have j: "convertToJpeg env0 (compress env0 w (pathJoin ''data/S3'' fn) ''data/S3'' (Some rendered))
             (pathJoin ''data/S3'' fn) False =
     (Inr None, w\<lparr>executed := executed w @ [[''+oj'', ''+Jq'', ''100'', ''data/S3/'' @ fn, ''data/S3/'' @ fn @ ''.jpg'']]\<rparr>)"
    unfolding p c using assms by (rule convertToJpeg_S3_absent)
  show ?thesis
    by (rule addFileToBuffer_rendered_absent [OF r j])
qed

lemma checkCache_S3_rendered:
  "checkCache env0 worldS3 (renderedOf (request ''S3'')) =
     Inr \<lparr>useCache = True, foundInstances = [''a'', ''b'', ''c''], isDir = True\<rparr>"
  unfolding checkCache_def by (simp add: scenario_defs path_defs renderedOf_def)

lemma checkCache_S3_a_rendered:
  "checkCache env0 worldS3 (renderedOf (requestInstance ''S3'' ''a'')) =
     Inr \<lparr>useCache = True, foundInstances = [], isDir = False\<rparr>"
  unfolding checkCache_def by (simp add: scenario_defs path_defs renderedOf_def)

lemma addFileToBuffer_S3_absent_disk:
  assumes "disk w = disk worldS3" and "fn \<in> {''a'', ''b'', ''c''}"
  shows "\<exists>w'. addFileToBuffer env0 w ''data/S3'' fn (Some rendered) = (Inl TypeError, w')
           \<and> disk w' = disk worldS3"
  using addFileToBuffer_S3_absent[OF assms] assms(1) by simp

lemma transformEach_S3_absent:
  "\<exists>w'. transformEach env0 worldS3 ''data/S3'' [''a'', ''b'', ''c''] (Some rendered) [''x'', ''a'', ''b'', ''c'']
      = ([Inr None, Inl TypeError, Inl TypeError, Inl TypeError], w')"
proof -
  obtain wa where a: "addFileToBuffer env0 worldS3 ''data/S3'' ''a'' (Some rendered) = (Inl TypeError, wa)"
    and da: "disk wa = disk worldS3"
    using addFileToBuffer_S3_absent_disk [of worldS3 "''a''"] by auto
  obtain wb where b: "addFileToBuffer env0 wa ''data/S3'' ''b'' (Some rendered) = (Inl TypeError, wb)"
    and db: "disk wb = disk worldS3"
    using addFileToBuffer_S3_absent_disk [of wa "''b''"] da by auto
  obtain wc where c: "addFileToBuffer env0 wb ''data/S3'' ''c'' (Some rendered) = (Inl TypeError, wc)"
    using addFileToBuffer_S3_absent_disk [of wb "''c''"] db by auto
  have "transformEach env0 worldS3 ''data/S3'' [''a'', ''b'', ''c''] (Some rendered) [''x'', ''a'', ''b'', ''c'']
      = ([Inr None, Inl TypeError, Inl TypeError, Inl TypeError], wc)"
    by (simp add: a b c)
  then show ?thesis by blast
qed

lemma promiseAll_S3_absent:
  assumes "outcomes = [Inr None, Inl TypeError, Inl TypeError, Inl TypeError]"
  shows "promiseAll (completionOrder e (length outcomes)) outcomes = Inl TypeError"
proof (cases "promiseAll (completionOrder e (length outcomes)) outcomes")
  case (Inl err)
  from promiseAll_rejection[OF Inl] obtain i where "i < Suc (Suc (Suc (Suc 0)))"
    and i: "outcomes ! i = Inl err"
    by (auto simp: set_completionOrder assms)
  then have "err = TypeError" by (auto simp: less_Suc_eq assms)
  with Inl show ?thesis by simp
next
  case (Inr buffers)
  then have "outcomes = map Inr buffers"
    by (rule iffD1 [OF promiseAll_completionOrder])
  with assms show ?thesis by (auto simp: map_eq_Cons_conv)
qed

text \<open>
  Claim C8 has a renderer result of \<^verbatim>\<open>undefined\<close> leave out the part of a \<^verbatim>\<open>rendered\<close>
  request. The code pushes the \<^verbatim>\<open>undefined\<close> into the list it hands to \<^verbatim>\<open>Buffer.concat\<close>
  (lines 123 and 133 to 135), which throws. Study \<^verbatim>\<open>S3\<close> is complete on disk and the tool
  runs without error but leaves no JPEG. The request for the rendered instance \<^verbatim>\<open>a\<close> fails
  with a \<^verbatim>\<open>TypeError\<close> after the one run of the tool; the request for the rendered study
  fails with a \<^verbatim>\<open>TypeError\<close> as well, in whatever order the transforms settle. There is no
  response.
\<close>

theorem rendered_absent_fails_request:
  "doWadoRs env0 worldS3 (renderedOf (requestInstance ''S3'' ''a'')) =
     (Inl TypeError,
      worldS3\<lparr>executed := [[''+oj'', ''+Jq'', ''100'', ''data/S3/a'', ''data/S3/a.jpg'']]\<rparr>)
   \<and> (\<forall>f. fst (doWadoRs (env0\<lparr>finish := f\<rparr>) worldS3 (renderedOf (request ''S3''))) = Inl TypeError)"
proof
  let ?req = "renderedOf (requestInstance ''S3'' ''a'')"
  let ?c = "\<lparr>useCache = True, foundInstances = [], isDir = False\<rparr>"
  have f: "ensureFetched env0 worldS3 ?req ?c = (None, worldS3)"
    by (simp add: ensureFetched_def)
  have fmt: "dataFormat ?req = Some rendered" by (simp add: renderedOf_def)
  have sp: "studyPath env0 ?req = ''data/S3''" and fn: "filename ?req = ''a''"
    by (simp_all add: scenario_defs path_defs renderedOf_def)
  have a: "addFileToBuffer env0 worldS3 ''data/S3'' ''a'' (Some rendered) =
     (Inl TypeError,
      worldS3\<lparr>executed := [[''+oj'', ''+Jq'', ''100'', ''data/S3/a'', ''data/S3/a.jpg'']]\<rparr>)"
    using addFileToBuffer_S3_absent [of worldS3 "''a''"] by (simp add: worldS3_def)
  have b: "collectBuffers env0 worldS3 ?req ?c =
     (Inl TypeError,
      worldS3\<lparr>executed := [[''+oj'', ''+Jq'', ''100'', ''data/S3/a'', ''data/S3/a.jpg'']]\<rparr>)"
    by (simp add: collectBuffers_def sp fn fmt a)
  show "doWadoRs env0 worldS3 ?req =
     (Inl TypeError,
      worldS3\<lparr>executed := [[''+oj'', ''+Jq'', ''100'', ''data/S3/a'', ''data/S3/a.jpg'']]\<rparr>)"
    by (simp add: doWadoRs_def serve_def checkCache_S3_a_rendered f fmt b)
next
  have "fst (doWadoRs (env0\<lparr>finish := f\<rparr>) worldS3 (renderedOf (request ''S3''))) = Inl TypeError" for f
  proof -
  let ?e = "env0\<lparr>finish := f\<rparr>"
  let ?req = "renderedOf (request ''S3'')"
  let ?c = "\<lparr>useCache = True, foundInstances = [''a'', ''b'', ''c''], isDir = True\<rparr>"
  have cc: "checkCache ?e worldS3 ?req = Inr ?c"
    unfolding checkCache_def by (simp add: scenario_defs path_defs renderedOf_def)
  have fe: "ensureFetched ?e worldS3 ?req ?c = (None, worldS3)"
    by (simp add: ensureFetched_def)
  have fmt: "dataFormat ?req = Some rendered" by (simp add: renderedOf_def)
  have pn: "pathname ?e ?req = ''data/S3''"
    by (simp add: scenario_defs path_defs renderedOf_def)
  have l: "readdir (disk worldS3) ''data/S3'' = Inr [''x'', ''a'', ''b'', ''c'']"
    by (simp add: readdir_def worldS3_def)
  from transformEach_S3_absent obtain w' where
    "transformEach env0 worldS3 ''data/S3'' [''a'', ''b'', ''c''] (Some rendered) [''x'', ''a'', ''b'', ''c'']
      = ([Inr None, Inl TypeError, Inl TypeError, Inl TypeError], w')"
    by blast
  then have t: "transformEach ?e worldS3 ''data/S3'' [''a'', ''b'', ''c''] (Some rendered) [''x'', ''a'', ''b'', ''c'']
      = ([Inr None, Inl TypeError, Inl TypeError, Inl TypeError], w')"
    by (simp only: transformEach_finish)
  have pa: "promiseAll (completionOrder ?e
        (length ([Inr None, Inl TypeError, Inl TypeError, Inl TypeError] :: (error + Buffer option) list)))
      [Inr None, Inl TypeError, Inl TypeError, Inl TypeError] = Inl TypeError"
    by (rule promiseAll_S3_absent [OF refl])
  have b: "collectBuffers ?e worldS3 ?req ?c = (Inl TypeError, w')"
    unfolding collectBuffers_def pn fmt
    by (simp add: l t pa del: transformEach.simps list.size)
  show "fst (doWadoRs ?e worldS3 ?req) = Inl TypeError"
    by (simp add: doWadoRs_def serve_def cc fe fmt b)
  qed
  then show "\<forall>f. fst (doWadoRs (env0\<lparr>finish := f\<rparr>) worldS3 (renderedOf (request ''S3''))) = Inl TypeError"
    by blast
qed

subsection \<open>The multipart assembler\<close>

lemma foldl_push:
  "foldl (\<lambda>buffArray buff. buffArray @ [pre, buff]) acc ps = acc @ concat (map (\<lambda>p. [pre, p]) ps)"
  by (induction ps arbitrary: acc) auto

lemma concat_pairs: "concat (concat (map (\<lambda>p. [pre, p]) ps)) = concat (map (\<lambda>p. pre @ p) ps)"
  by (induction ps) auto

lemma assemble_eq:
  "assemble boundary buffers =
     concat (map (\<lambda>part. ''--'' @ boundary @ [CHR 0x0D, CHR 0x0A] @ part) (present buffers))
     @ ''--'' @ boundary @ ''--'' @ [CHR 0x0D, CHR 0x0A]"
  by (simp add: assemble_def foldl_push concat_pairs term_crlf_def)

lemma doWadoRs_multipart:
  assumes "dataFormat req \<noteq> Some thumbnail" and "doWadoRs e w req = (Inr resp, w')"
  shows "\<exists>c w1 buffers. checkCache e w req = Inr c \<and> ensureFetched e w req c = (None, w1)
           \<and> collectBuffers e w1 req c = (Inr buffers, w') \<and> resp = multipartResponse req buffers"
proof -
  from assms(2) obtain c where c: "checkCache e w req = Inr c"
    by (cases "checkCache e w req") (auto simp: doWadoRs_def serve_def)
  obtain r1 w1 where f: "ensureFetched e w req c = (r1, w1)" by force
  with assms(2) c have r1: "r1 = None"
    by (cases r1) (auto simp: doWadoRs_def serve_def)
  obtain r2 w2 where b: "collectBuffers e w1 req c = (r2, w2)" by force
  with assms c f r1 obtain buffers where "r2 = Inr buffers" "w2 = w'" "resp = multipartResponse req buffers"
    by (cases r2) (auto simp: doWadoRs_def serve_def)
  with c f r1 b show ?thesis by blast
qed

text \<open>
  Claim C4. Every response to a request that is not a thumbnail request is the multipart
  response: with the study UID \<open>b\<close> as the boundary, its buffer is, for each entry of
  \<^verbatim>\<open>buffers\<close> that is not \<^verbatim>\<open>undefined\<close> and in their order, \<^verbatim>\<open>--b\r\n\<close> and the part, and
  then the closing \<^verbatim>\<open>--b--\r\n\<close>; with no part it is the closing marker alone. Its content
  type is \<^verbatim>\<open>multipart/related;type='T';boundary=b\<close> with \<open>T\<close> the type \<^verbatim>\<open>image/jpeg\<close> for
  \<^verbatim>\<open>rendered\<close>, \<^verbatim>\<open>application/octet-stream\<close> for \<^verbatim>\<open>pixelData\<close> and \<^verbatim>\<open>bulkData\<close>, and
  \<^verbatim>\<open>application/dicom\<close> otherwise.
\<close>

theorem multipart_boundaries:
  assumes "dataFormat req \<noteq> Some thumbnail" and "doWadoRs e w req = (Inr resp, w')"
  shows "\<exists>c w1 buffers.
           checkCache e w req = Inr c \<and> ensureFetched e w req c = (None, w1)
         \<and> collectBuffers e w1 req c = (Inr buffers, w')
         \<and> buffer resp =
             concat (map (\<lambda>part. ''--'' @ studyInstanceUid req @ [CHR 0x0D, CHR 0x0A] @ part)
                       (present buffers))
             @ ''--'' @ studyInstanceUid req @ ''--'' @ [CHR 0x0D, CHR 0x0A]
         \<and> (present buffers = [] \<longrightarrow>
               buffer resp = ''--'' @ studyInstanceUid req @ ''--'' @ [CHR 0x0D, CHR 0x0A])
         \<and> contentType resp =
             ''multipart/related;type='' @ [CHR 0x27]
             @ (if dataFormat req = Some rendered then ''image/jpeg''
                else if dataFormat req = Some pixelData \<or> dataFormat req = Some bulkData
                then ''application/octet-stream''
                else ''application/dicom'')
             @ [CHR 0x27] @ '';boundary='' @ studyInstanceUid req"
proof -
  from doWadoRs_multipart[OF assms] obtain c w1 buffers where
    c: "checkCache e w req = Inr c" and f: "ensureFetched e w req c = (None, w1)"
    and b: "collectBuffers e w1 req c = (Inr buffers, w')"
    and r: "resp = multipartResponse req buffers"
    by blast
  have buf: "buffer resp =
             concat (map (\<lambda>part. ''--'' @ studyInstanceUid req @ [CHR 0x0D, CHR 0x0A] @ part)
                       (present buffers))
             @ ''--'' @ studyInstanceUid req @ ''--'' @ [CHR 0x0D, CHR 0x0A]"
    by (simp add: r multipartResponse_def assemble_eq)
  then have empty: "present buffers = [] \<longrightarrow>
               buffer resp = ''--'' @ studyInstanceUid req @ ''--'' @ [CHR 0x0D, CHR 0x0A]"
    by simp
  have ct: "contentType resp =
             ''multipart/related;type='' @ [CHR 0x27]
             @ (if dataFormat req = Some rendered then ''image/jpeg''
                else if dataFormat req = Some pixelData \<or> dataFormat req = Some bulkData
                then ''application/octet-stream''
                else ''application/dicom'')
             @ [CHR 0x27] @ '';boundary='' @ studyInstanceUid req"
    by (simp add: r multipartResponse_def partType_def)
  from c f b buf empty ct show ?thesis by blast
qed

lemma addFileToBuffer_S2_I1:
  "addFileToBuffer env0 worldS2 ''data/S2'' ''I1'' None =
     (Inr (''Content-Type:application/dicom;transfer-syntax:1.2.840.10008.1.2.1'' @ [CHR 0x0D, CHR 0x0A]
           @ [CHR 0x0D, CHR 0x0A] @ ''one'' @ [CHR 0x0D, CHR 0x0A]), worldS2)"
  unfolding addFileToBuffer_def
  by (simp add: Let_def compress_def wrapPart_def term_crlf_def scenario_defs path_defs)

lemma checkCache_S2_I1_plain:
  "checkCache env0 worldS2 (requestInstance ''S2'' ''I1'') =
     Inr \<lparr>useCache = True, foundInstances = [], isDir = False\<rparr>"
  unfolding checkCache_def by (simp add: scenario_defs path_defs)

lemma collectBuffers_S2_I1:
  "collectBuffers env0 worldS2 (requestInstance ''S2'' ''I1'')
     \<lparr>useCache = True, foundInstances = [], isDir = False\<rparr> =
     (Inr [Some (''Content-Type:application/dicom;transfer-syntax:1.2.840.10008.1.2.1'' @ [CHR 0x0D, CHR 0x0A]
           @ [CHR 0x0D, CHR 0x0A] @ ''one'' @ [CHR 0x0D, CHR 0x0A])], worldS2)"
proof -
  have "studyPath env0 (requestInstance ''S2'' ''I1'') = ''data/S2''"
    and "filename (requestInstance ''S2'' ''I1'') = ''I1''"
    and "dataFormat (requestInstance ''S2'' ''I1'') = None"
    by (simp_all add: scenario_defs path_defs)
  then show ?thesis
    by (simp add: collectBuffers_def addFileToBuffer_S2_I1)
qed

lemma doWadoRs_S2_I1:
  "doWadoRs env0 worldS2 (requestInstance ''S2'' ''I1'') =
     (Inr (multipartResponse (requestInstance ''S2'' ''I1'')
        [Some (''Content-Type:application/dicom;transfer-syntax:1.2.840.10008.1.2.1'' @ [CHR 0x0D, CHR 0x0A]
           @ [CHR 0x0D, CHR 0x0A] @ ''one'' @ [CHR 0x0D, CHR 0x0A])]), worldS2)"
proof -
  have "dataFormat (requestInstance ''S2'' ''I1'') \<noteq> Some thumbnail"
    by (simp add: scenario_defs)
  moreover have "ensureFetched env0 worldS2 (requestInstance ''S2'' ''I1'')
     \<lparr>useCache = True, foundInstances = [], isDir = False\<rparr> = (None, worldS2)"
    by (simp add: ensureFetched_def)
  ultimately show ?thesis
    by (simp add: doWadoRs_def serve_def checkCache_S2_I1_plain collectBuffers_S2_I1)
qed

lemma promiseAll_one_hole: "promiseAll (completionOrder e (Suc 0)) [Inr None] = Inr [None]"
  using promiseAll_completionOrder_fulfilled [of e "[None]"] by simp

lemma collectBuffers_S0:
  "collectBuffers env0 worldS3 (request ''S0'') \<lparr>useCache = True, foundInstances = [], isDir = True\<rparr>
     = (Inr [None], worldS3)"
proof -
  have "pathname env0 (request ''S0'') = ''data/S0''"
    by (simp add: scenario_defs path_defs)
  moreover have "readdir (disk worldS3) ''data/S0'' = Inr [''x'']"
    by (simp add: readdir_def worldS3_def)
  ultimately show ?thesis
    by (simp add: collectBuffers_def promiseAll_one_hole)
qed

lemma doWadoRs_S0:
  "doWadoRs env0 worldS3 (request ''S0'') = (Inr (multipartResponse (request ''S0'') [None]), worldS3)"
proof -
  have "dataFormat (request ''S0'') \<noteq> Some thumbnail"
    by (simp add: scenario_defs)
  moreover have "ensureFetched env0 worldS3 (request ''S0'')
     \<lparr>useCache = True, foundInstances = [], isDir = True\<rparr> = (None, worldS3)"
    by (simp add: ensureFetched_def)
  ultimately show ?thesis
    by (simp add: doWadoRs_def serve_def checkCache_S0 collectBuffers_S0)
qed

text \<open>
  Instance \<^verbatim>\<open>I1\<close> of \<^verbatim>\<open>S2\<close>, on disk: one part between \<^verbatim>\<open>--S2\<close> and \<^verbatim>\<open>--S2--\<close>. Study
  \<^verbatim>\<open>S0\<close>, of which nothing is expected: the closing marker alone.
\<close>

theorem multipart_boundaries_witness:
  "(\<exists>resp. doWadoRs env0 worldS2 (requestInstance ''S2'' ''I1'') = (Inr resp, worldS2)
     \<and> dataFormat (requestInstance ''S2'' ''I1'') \<noteq> Some thumbnail
     \<and> buffer resp =
         ''--S2'' @ [CHR 0x0D, CHR 0x0A]
         @ ''Content-Type:application/dicom;transfer-syntax:1.2.840.10008.1.2.1'' @ [CHR 0x0D, CHR 0x0A]
         @ [CHR 0x0D, CHR 0x0A] @ ''one'' @ [CHR 0x0D, CHR 0x0A]
         @ ''--S2--'' @ [CHR 0x0D, CHR 0x0A]
     \<and> contentType resp = ''multipart/related;type='application/dicom';boundary=S2'')
   \<and> (\<exists>resp. doWadoRs env0 worldS3 (request ''S0'') = (Inr resp, worldS3)
     \<and> dataFormat (request ''S0'') \<noteq> Some thumbnail
     \<and> buffer resp = ''--S0--'' @ [CHR 0x0D, CHR 0x0A])"
proof (rule conjI)
  let ?req = "requestInstance ''S2'' ''I1''"
  let ?part = "''Content-Type:application/dicom;transfer-syntax:1.2.840.10008.1.2.1'' @ [CHR 0x0D, CHR 0x0A]
           @ [CHR 0x0D, CHR 0x0A] @ ''one'' @ [CHR 0x0D, CHR 0x0A]"
  let ?resp = "multipartResponse ?req [Some ?part]"
  have nt: "dataFormat ?req \<noteq> Some thumbnail" by (simp add: scenario_defs)
  from multipart_boundaries [OF nt doWadoRs_S2_I1]
  obtain c w1 buffers where
    c: "checkCache env0 worldS2 ?req = Inr c" and f: "ensureFetched env0 worldS2 ?req c = (None, w1)"
    and b: "collectBuffers env0 w1 ?req c = (Inr buffers, worldS2)"
    and buf: "buffer ?resp =
             concat (map (\<lambda>part. ''--'' @ studyInstanceUid ?req @ [CHR 0x0D, CHR 0x0A] @ part)
                       (present buffers))
             @ ''--'' @ studyInstanceUid ?req @ ''--'' @ [CHR 0x0D, CHR 0x0A]"
    and ct: "contentType ?resp =
             ''multipart/related;type='' @ [CHR 0x27]
             @ (if dataFormat ?req = Some rendered then ''image/jpeg''
                else if dataFormat ?req = Some pixelData \<or> dataFormat ?req = Some bulkData
                then ''application/octet-stream''
                else ''application/dicom'')
             @ [CHR 0x27] @ '';boundary='' @ studyInstanceUid ?req"
    by blast
  from c have c': "c = \<lparr>useCache = True, foundInstances = [], isDir = False\<rparr>"
    by (simp add: checkCache_S2_I1_plain)
  from f have w1: "w1 = worldS2" by (simp add: c' ensureFetched_def)
  from b have bs: "buffers = [Some ?part]" by (simp add: c' w1 collectBuffers_S2_I1)
  have s: "studyInstanceUid ?req = ''S2''" and d: "dataFormat ?req = None"
    by (simp_all add: scenario_defs)
  from buf have buf': "buffer ?resp = ''--S2'' @ [CHR 0x0D, CHR 0x0A] @ ?part @ ''--S2--'' @ [CHR 0x0D, CHR 0x0A]"
    by (simp add: bs s)
  from ct have ct': "contentType ?resp = ''multipart/related;type='application/dicom';boundary=S2''"
    by (simp add: s d)
  from doWadoRs_S2_I1 nt buf' ct'
  show "\<exists>resp. doWadoRs env0 worldS2 ?req = (Inr resp, worldS2)
     \<and> dataFormat ?req \<noteq> Some thumbnail
     \<and> buffer resp =
         ''--S2'' @ [CHR 0x0D, CHR 0x0A]
         @ ''Content-Type:application/dicom;transfer-syntax:1.2.840.10008.1.2.1'' @ [CHR 0x0D, CHR 0x0A]
         @ [CHR 0x0D, CHR 0x0A] @ ''one'' @ [CHR 0x0D, CHR 0x0A]
         @ ''--S2--'' @ [CHR 0x0D, CHR 0x0A]
     \<and> contentType resp = ''multipart/related;type='application/dicom';boundary=S2''"
    by auto
next
  let ?req = "request ''S0''"
  let ?resp = "multipartResponse ?req [None]"
  have nt: "dataFormat ?req \<noteq> Some thumbnail" by (simp add: scenario_defs)
  from multipart_boundaries [OF nt doWadoRs_S0]
  obtain c w1 buffers where
    c: "checkCache env0 worldS3 ?req = Inr c" and f: "ensureFetched env0 worldS3 ?req c = (None, w1)"
    and b: "collectBuffers env0 w1 ?req c = (Inr buffers, worldS3)"
    and empty: "present buffers = [] \<longrightarrow>
               buffer ?resp = ''--'' @ studyInstanceUid ?req @ ''--'' @ [CHR 0x0D, CHR 0x0A]"
    by blast
  from c have c': "c = \<lparr>useCache = True, foundInstances = [], isDir = True\<rparr>"
    by (simp add: checkCache_S0)
  from f have w1: "w1 = worldS3" by (simp add: c' ensureFetched_def)
  from b have bs: "buffers = [None]" by (simp add: c' w1 collectBuffers_S0)
  have s: "studyInstanceUid ?req = ''S0''" by (simp add: scenario_defs)
  from empty have "buffer ?resp = ''--S0--'' @ [CHR 0x0D, CHR 0x0A]"
    by (simp add: bs s)
  with doWadoRs_S0 nt
  show "\<exists>resp. doWadoRs env0 worldS3 ?req = (Inr resp, worldS3)
     \<and> dataFormat ?req \<noteq> Some thumbnail
     \<and> buffer resp = ''--S0--'' @ [CHR 0x0D, CHR 0x0A]"
    by auto
qed

subsection \<open>The order of the parts\<close>

lemma transformEach_in_order:
  "transformEach e w pn found fmt fs = (map Inr buffers, w') \<Longrightarrow>
   transformInOrder e w pn fmt (filter (\<lambda>f. f \<in> set found) fs) = (Inr (present buffers), w')"
proof (induction fs arbitrary: w buffers)
  case Nil
  then show ?case by simp
next
  case (Cons f fs)
  show ?case
  proof (cases "f \<in> set found")
    case False
    with Cons.prems obtain rs where t: "transformEach e w pn found fmt fs = (rs, w')"
      and o: "map Inr buffers = Inr None # rs"
      by (auto split: prod.splits)
    from o obtain bs where b: "buffers = None # bs" and rs: "rs = map Inr bs"
      by (cases buffers) auto
    from Cons.IH[OF t[unfolded rs]] False b show ?thesis by simp
  next
    case True
    with Cons.prems obtain r w1 rs where a: "addFileToBuffer e w pn f fmt = (r, w1)"
      and t: "transformEach e w1 pn found fmt fs = (rs, w')"
      and o: "map Inr buffers = map_sum id Some r # rs"
      by (auto split: prod.splits)
    from o obtain v bs where b: "buffers = v # bs" and rs: "rs = map Inr bs"
      and v: "map_sum id Some r = Inr v"
      by (cases buffers) auto
    from v obtain part where r: "r = Inr part" and vp: "v = Some part"
      by (cases r) auto
    from Cons.IH[OF t[unfolded rs]] True a b r vp show ?thesis by simp
  qed
qed

lemma transformInOrder_positions:
  "transformInOrder e w pn fmt names = (Inr parts, w') \<Longrightarrow>
   length parts = length names
   \<and> (\<forall>k < length names. \<exists>wk wk'. addFileToBuffer e wk pn (names ! k) fmt = (Inr (parts ! k), wk'))"
proof (induction names arbitrary: w parts)
  case Nil
  then show ?case by simp
next
  case (Cons name names)
  then obtain part w1 ps where a: "addFileToBuffer e w pn name fmt = (Inr part, w1)"
    and t: "transformInOrder e w1 pn fmt names = (Inr ps, w')" and p: "parts = part # ps"
    by (auto split: prod.splits sum.splits)
  from Cons.IH[OF t] have len: "length ps = length names"
    and pos: "\<forall>k < length names. \<exists>wk wk'. addFileToBuffer e wk pn (names ! k) fmt = (Inr (ps ! k), wk')"
    by blast+
  show ?case
  proof (intro conjI allI impI)
    show "length parts = length (name # names)" using len p by simp
  next
    fix k assume k: "k < length (name # names)"
    show "\<exists>wk wk'. addFileToBuffer e wk pn ((name # names) ! k) fmt = (Inr (parts ! k), wk')"
    proof (cases k)
      case 0
      with a p show ?thesis by auto
    next
      case (Suc j)
      with k have "j < length names" by simp
      with pos obtain wk wk' where "addFileToBuffer e wk pn (names ! j) fmt = (Inr (ps ! j), wk')"
        by blast
      with Suc p show ?thesis by auto
    qed
  qed
qed

lemma collectBuffers_dir:
  assumes "isDir c" and "collectBuffers e w req c = (Inr buffers, w')"
  shows "\<exists>files. readdir (disk w) (pathname e req) = Inr files
           \<and> transformEach e w (pathname e req) (foundInstances c) (dataFormat req) files
               = (map Inr buffers, w')"
  using assms
  by (auto simp: collectBuffers_def promiseAll_completionOrder split: sum.splits prod.splits)

lemma collectBuffers_finish:
  assumes "collectBuffers e w req c = (Inr buffers, w')"
  shows "collectBuffers (e\<lparr>finish := f\<rparr>) w req c = (Inr buffers, w')"
proof (cases "isDir c")
  case False
  with assms show ?thesis
    by (simp add: collectBuffers_def addFileToBuffer_finish studyPath_finish)
next
  case True
  from collectBuffers_dir[OF True assms] obtain files where
    l: "readdir (disk w) (pathname e req) = Inr files"
    and t: "transformEach e w (pathname e req) (foundInstances c) (dataFormat req) files
             = (map Inr buffers, w')"
    by blast
  have "promiseAll (completionOrder (e\<lparr>finish := f\<rparr>) (length (map Inr buffers))) (map Inr buffers)
          = Inr buffers"
    using promiseAll_completionOrder [of "e\<lparr>finish := f\<rparr>" "map Inr buffers" buffers] by simp
  with True l t show ?thesis
    by (simp add: collectBuffers_def pathname_finish transformEach_finish del: length_map)
qed

lemma doWadoRs_finish:
  assumes "dataFormat req \<noteq> Some thumbnail" and "doWadoRs e w req = (Inr resp, w')"
  shows "doWadoRs (e\<lparr>finish := f\<rparr>) w req = (Inr resp, w')"
proof -
  from doWadoRs_multipart[OF assms] obtain c w1 buffers where
    c: "checkCache e w req = Inr c" and fe: "ensureFetched e w req c = (None, w1)"
    and b: "collectBuffers e w1 req c = (Inr buffers, w')"
    and r: "resp = multipartResponse req buffers"
    by blast
  from collectBuffers_finish[OF b] c fe r assms(1) show ?thesis
    by (simp add: doWadoRs_def serve_def checkCache_finish ensureFetched_finish)
qed

text \<open>
  Claim C5. In the response to a directory-scope request that is not a thumbnail request,
  the parts are the transforms of the directory entries that are expected instances, in
  the order in which \<^verbatim>\<open>fs.readdir\<close> enumerated them: the \<open>k\<close>-th part is the transform of
  the \<open>k\<close>-th such entry. The finishing times of the transforms are a field of \<open>e\<close>, so
  this holds for every completion order; and changing the finishing times changes neither
  the response nor the world.
\<close>

theorem parts_in_enumeration_order:
  assumes "dataFormat req \<noteq> Some thumbnail" and "checkCache e w req = Inr c" and "isDir c"
    and "doWadoRs e w req = (Inr resp, w')"
  shows "(\<exists>w1 files parts.
            ensureFetched e w req c = (None, w1)
          \<and> readdir (disk w1) (pathname e req) = Inr files
          \<and> transformInOrder e w1 (pathname e req) (dataFormat req)
               (filter (\<lambda>file. file \<in> set (foundInstances c)) files) = (Inr parts, w')
          \<and> length parts = length (filter (\<lambda>file. file \<in> set (foundInstances c)) files)
          \<and> (\<forall>k < length parts. \<exists>wk wk'.
                addFileToBuffer e wk (pathname e req)
                  (filter (\<lambda>file. file \<in> set (foundInstances c)) files ! k) (dataFormat req)
                = (Inr (parts ! k), wk'))
          \<and> buffer resp =
              concat (map (\<lambda>part. ''--'' @ studyInstanceUid req @ [CHR 0x0D, CHR 0x0A] @ part) parts)
              @ ''--'' @ studyInstanceUid req @ ''--'' @ [CHR 0x0D, CHR 0x0A])
         \<and> (\<forall>f. doWadoRs (e\<lparr>finish := f\<rparr>) w req = (Inr resp, w'))"
proof (intro conjI allI)
  from doWadoRs_multipart[OF assms(1,4)] assms(2) obtain w1 buffers where
    fe: "ensureFetched e w req c = (None, w1)"
    and b: "collectBuffers e w1 req c = (Inr buffers, w')"
    and r: "resp = multipartResponse req buffers"
    by auto
  from collectBuffers_dir[OF assms(3) b] obtain files where
    l: "readdir (disk w1) (pathname e req) = Inr files"
    and t: "transformEach e w1 (pathname e req) (foundInstances c) (dataFormat req) files
             = (map Inr buffers, w')"
    by blast
  let ?names = "filter (\<lambda>file. file \<in> set (foundInstances c)) files"
  from transformEach_in_order[OF t]
  have o: "transformInOrder e w1 (pathname e req) (dataFormat req) ?names = (Inr (present buffers), w')" .
  from transformInOrder_positions[OF o]
  have len: "length (present buffers) = length ?names"
    and pos: "\<forall>k < length (present buffers). \<exists>wk wk'.
                addFileToBuffer e wk (pathname e req) (?names ! k) (dataFormat req)
                = (Inr (present buffers ! k), wk')"
    by simp_all
  have buf: "buffer resp =
              concat (map (\<lambda>part. ''--'' @ studyInstanceUid req @ [CHR 0x0D, CHR 0x0A] @ part) (present buffers))
              @ ''--'' @ studyInstanceUid req @ ''--'' @ [CHR 0x0D, CHR 0x0A]"
    by (simp add: r multipartResponse_def assemble_eq)
  from fe l o len pos buf
  show "\<exists>w1 files parts.
            ensureFetched e w req c = (None, w1)
          \<and> readdir (disk w1) (pathname e req) = Inr files
          \<and> transformInOrder e w1 (pathname e req) (dataFormat req)
               (filter (\<lambda>file. file \<in> set (foundInstances c)) files) = (Inr parts, w')
          \<and> length parts = length (filter (\<lambda>file. file \<in> set (foundInstances c)) files)
          \<and> (\<forall>k < length parts. \<exists>wk wk'.
                addFileToBuffer e wk (pathname e req)
                  (filter (\<lambda>file. file \<in> set (foundInstances c)) files ! k) (dataFormat req)
                = (Inr (parts ! k), wk'))
          \<and> buffer resp =
              concat (map (\<lambda>part. ''--'' @ studyInstanceUid req @ [CHR 0x0D, CHR 0x0A] @ part) parts)
              @ ''--'' @ studyInstanceUid req @ ''--'' @ [CHR 0x0D, CHR 0x0A]"
    by blast
next
  fix f
  show "doWadoRs (e\<lparr>finish := f\<rparr>) w req = (Inr resp, w')"
    using assms(1,4) by (rule doWadoRs_finish)
qed

lemma addFileToBuffer_plain:
  "disk w (pathJoin pn fn) = Some (File data) \<Longrightarrow>
   addFileToBuffer envCAB w pn fn None = (Inr (dicomPart data), w)"
  unfolding addFileToBuffer_def
  by (simp add: Let_def compress_def wrapPart_def term_crlf_def envCAB_def env0_def readFile_def
        dicomPart_def)

lemma disk_ABC:
  "disk worldABC (pathJoin ''data/S3'' ''a'') = Some (File ''A'')"
  "disk worldABC (pathJoin ''data/S3'' ''b'') = Some (File ''B'')"
  "disk worldABC (pathJoin ''data/S3'' ''c'') = Some (File ''C'')"
  by (simp_all add: worldABC_def pathJoin_def)

lemma completionOrder_CAB: "completionOrder envCAB 3 = [2, 0, 1]"
  by (simp add: completionOrder_def envCAB_def upt_rec)

lemma completionOrder_CAB_Suc: "completionOrder envCAB (Suc (Suc (Suc 0))) = [2, 0, 1]"
  using completionOrder_CAB by (simp add: numeral_3_eq_3)

lemma checkCache_ABC:
  "checkCache envCAB worldABC (request ''S3'') =
     Inr \<lparr>useCache = True, foundInstances = [''a'', ''b'', ''c''], isDir = True\<rparr>"
  unfolding checkCache_def by (simp add: envCAB_def worldABC_def scenario_defs path_defs)

lemma pathname_ABC: "pathname envCAB (request ''S3'') = ''data/S3''"
  by (simp add: envCAB_def scenario_defs path_defs)

lemma transformEach_ABC:
  "transformEach envCAB worldABC ''data/S3'' [''a'', ''b'', ''c''] None [''a'', ''b'', ''c''] =
     ([Inr (Some (dicomPart ''A'')), Inr (Some (dicomPart ''B'')), Inr (Some (dicomPart ''C''))], worldABC)"
  by (simp add: addFileToBuffer_plain disk_ABC)

lemma transformInOrder_ABC:
  "transformInOrder envCAB worldABC ''data/S3'' None [''a'', ''b'', ''c''] =
     (Inr [dicomPart ''A'', dicomPart ''B'', dicomPart ''C''], worldABC)"
  by (simp add: addFileToBuffer_plain disk_ABC)

lemma promiseAll_CAB:
  "promiseAll [2, 0, 1] [Inr (Some (dicomPart ''A'')), Inr (Some (dicomPart ''B'')), Inr (Some (dicomPart ''C''))]
     = Inr [Some (dicomPart ''A''), Some (dicomPart ''B''), Some (dicomPart ''C'')]"
  by (simp add: promiseAll_def numeral_3_eq_3 numeral_2_eq_2)

lemma promiseAll_CAB_Suc:
  "promiseAll [2, 0, Suc 0] [Inr (Some (dicomPart ''A'')), Inr (Some (dicomPart ''B'')), Inr (Some (dicomPart ''C''))]
     = Inr [Some (dicomPart ''A''), Some (dicomPart ''B''), Some (dicomPart ''C'')]"
  using promiseAll_CAB by simp

lemma doWadoRs_ABC:
  "doWadoRs envCAB worldABC (request ''S3'') =
     (Inr (multipartResponse (request ''S3'')
             [Some (dicomPart ''A''), Some (dicomPart ''B''), Some (dicomPart ''C'')]), worldABC)"
proof -
  let ?c = "\<lparr>useCache = True, foundInstances = [''a'', ''b'', ''c''], isDir = True\<rparr>"
  have f: "ensureFetched envCAB worldABC (request ''S3'') ?c = (None, worldABC)"
    by (simp add: ensureFetched_def)
  have l: "readdir (disk worldABC) ''data/S3'' = Inr [''a'', ''b'', ''c'']"
    by (simp add: readdir_def worldABC_def)
  have d: "dataFormat (request ''S3'') = None" by (simp add: request_def)
  have b: "collectBuffers envCAB worldABC (request ''S3'') ?c =
     (Inr [Some (dicomPart ''A''), Some (dicomPart ''B''), Some (dicomPart ''C'')], worldABC)"
    by (simp add: collectBuffers_def pathname_ABC l d transformEach_ABC completionOrder_CAB_Suc
          promiseAll_CAB_Suc del: transformEach.simps)
  show ?thesis
    by (simp add: doWadoRs_def serve_def checkCache_ABC f d b)
qed

text \<open>
  The entries \<^verbatim>\<open>a\<close>, \<^verbatim>\<open>b\<close>, \<^verbatim>\<open>c\<close>, all expected, with transforms that settle in the order
  \<^verbatim>\<open>c\<close>, \<^verbatim>\<open>a\<close>, \<^verbatim>\<open>b\<close>: the parts are those of \<^verbatim>\<open>a\<close>, \<^verbatim>\<open>b\<close>, \<^verbatim>\<open>c\<close>, in this order.
\<close>

theorem parts_in_enumeration_order_witness:
  "readdir (disk worldABC) (pathname envCAB (request ''S3'')) = Inr [''a'', ''b'', ''c'']
   \<and> completionOrder envCAB 3 = [2, 0, 1]
   \<and> (\<exists>resp. doWadoRs envCAB worldABC (request ''S3'') = (Inr resp, worldABC)
        \<and> buffer resp =
            ''--S3'' @ [CHR 0x0D, CHR 0x0A] @ dicomPart ''A''
            @ ''--S3'' @ [CHR 0x0D, CHR 0x0A] @ dicomPart ''B''
            @ ''--S3'' @ [CHR 0x0D, CHR 0x0A] @ dicomPart ''C''
            @ ''--S3--'' @ [CHR 0x0D, CHR 0x0A])"
proof -
  let ?req = "request ''S3''"
  let ?c = "\<lparr>useCache = True, foundInstances = [''a'', ''b'', ''c''], isDir = True\<rparr>"
  let ?resp = "multipartResponse ?req [Some (dicomPart ''A''), Some (dicomPart ''B''), Some (dicomPart ''C'')]"
  have nt: "dataFormat ?req \<noteq> Some thumbnail" by (simp add: request_def)
  have d: "isDir ?c" by simp
  have l: "readdir (disk worldABC) (pathname envCAB ?req) = Inr [''a'', ''b'', ''c'']"
    by (simp add: pathname_ABC readdir_def worldABC_def)
  from parts_in_enumeration_order [OF nt checkCache_ABC d doWadoRs_ABC, THEN conjunct1]
  obtain w1 files parts where
    f: "ensureFetched envCAB worldABC ?req ?c = (None, w1)"
    and r: "readdir (disk w1) (pathname envCAB ?req) = Inr files"
    and t: "transformInOrder envCAB w1 (pathname envCAB ?req) (dataFormat ?req)
               (filter (\<lambda>file. file \<in> set (foundInstances ?c)) files) = (Inr parts, worldABC)"
    and buf: "buffer ?resp =
              concat (map (\<lambda>part. ''--'' @ studyInstanceUid ?req @ [CHR 0x0D, CHR 0x0A] @ part) parts)
              @ ''--'' @ studyInstanceUid ?req @ ''--'' @ [CHR 0x0D, CHR 0x0A]"
    by blast
  from f have w1: "w1 = worldABC" by (simp add: ensureFetched_def)
  from r l have files: "files = [''a'', ''b'', ''c'']" by (simp add: w1)
  have df: "dataFormat ?req = None" and s: "studyInstanceUid ?req = ''S3''"
    by (simp_all add: request_def)
  from t have parts: "parts = [dicomPart ''A'', dicomPart ''B'', dicomPart ''C'']"
    by (simp add: w1 files pathname_ABC df transformInOrder_ABC del: transformInOrder.simps)
  from buf have "buffer ?resp =
            ''--S3'' @ [CHR 0x0D, CHR 0x0A] @ dicomPart ''A''
            @ ''--S3'' @ [CHR 0x0D, CHR 0x0A] @ dicomPart ''B''
            @ ''--S3'' @ [CHR 0x0D, CHR 0x0A] @ dicomPart ''C''
            @ ''--S3--'' @ [CHR 0x0D, CHR 0x0A]"
    by (simp add: parts s)
  with l completionOrder_CAB doWadoRs_ABC show ?thesis by blast
qed

end
